theory Spec2Isabelle
  imports Main
begin

section \<open>Time values and calendar arithmetic of the platform\<close>

text \<open>
  The storage layer computes expiry dates with the platform's \<^verbatim>\<open>Date\<close> objects. A date
  object holds a time value: an integer number of milliseconds since 1970-01-01T00:00Z, or
  no value at all (an invalid date), which is what every setter leaves behind when its
  result falls outside the range of \<open>8.64 * 10^15\<close> milliseconds around the epoch. The
  getters and setters the code uses (\<^verbatim>\<open>getDate\<close>, \<^verbatim>\<open>setDate\<close>, \<^verbatim>\<open>getMonth\<close>, \<^verbatim>\<open>setMonth\<close>,
  \<^verbatim>\<open>getFullYear\<close>, \<^verbatim>\<open>setFullYear\<close>, \<^verbatim>\<open>setHours\<close>) work in the server's local time, while
  \<^verbatim>\<open>toISOString\<close> and the reading of a date-only text work in UTC. The server's zone is a
  parameter \<open>tz\<close> of every function that depends on it: the number of milliseconds local
  time is ahead of UTC (0 for UTC, \<open>-18000000\<close> for Lima), taken to be constant (a zone
  without daylight saving).
\<close>

type_synonym jsdate = "int option"

definition msPerDay :: int where
  "msPerDay = 86400000"

definition maxTime :: int where
  "maxTime = 8640000000000000"

definition timeClip :: "int \<Rightarrow> jsdate" where
  "timeClip t = (if \<bar>t\<bar> \<le> maxTime then Some t else None)"

definition dayOf :: "int \<Rightarrow> int" where
  "dayOf t = t div msPerDay"

definition timeWithinDay :: "int \<Rightarrow> int" where
  "timeWithinDay t = t mod msPerDay"

text \<open>
  Day number of a civil date (month 1 to 12) in the proleptic Gregorian calendar, and the
  civil date of a day number. Years are counted from March, in eras of 400 years.
\<close>

definition daysFromCivil :: "int \<Rightarrow> int \<Rightarrow> int \<Rightarrow> int" where
  "daysFromCivil y m d =
     (let y' = (if m \<le> 2 then y - 1 else y);
          era = y' div 400;
          yoe = y' - era * 400;
          mp = (if m > 2 then m - 3 else m + 9);
          doy = (153 * mp + 2) div 5 + d - 1;
          doe = yoe * 365 + yoe div 4 - yoe div 100 + doy
      in era * 146097 + doe - 719468)"

definition civilFromDays :: "int \<Rightarrow> int \<times> int \<times> int" where
  "civilFromDays z =
     (let z' = z + 719468;
          era = z' div 146097;
          doe = z' - era * 146097;
          yoe = (doe - doe div 1460 + doe div 36524 - doe div 146096) div 365;
          doy = doe - (365 * yoe + yoe div 4 - yoe div 100);
          mp = (5 * doy + 2) div 153;
          d = doy - (153 * mp + 2) div 5 + 1;
          m = (if mp < 10 then mp + 3 else mp - 9);
          y = yoe + era * 400
      in (if m \<le> 2 then y + 1 else y, m, d))"

text \<open>
  \<^verbatim>\<open>MakeDay(year, month, date)\<close> with a month index from 0 that may lie outside 0 to 11 and
  a day of the month that may lie outside the month: both overflow into the following
  months, nothing is clamped.
\<close>

definition makeDay :: "int \<Rightarrow> int \<Rightarrow> int \<Rightarrow> int" where
  "makeDay y m dt = daysFromCivil (y + m div 12) (m mod 12 + 1) 1 + dt - 1"

text \<open>
  \<^verbatim>\<open>d.setDate(d.getDate() + n)\<close>: the local day number moves by \<open>n\<close>, the time of day stays;
  with a constant offset that is the same shift of the time value in every zone.
\<close>

definition addDays :: "jsdate \<Rightarrow> int \<Rightarrow> jsdate" where
  "addDays d n = (case d of None \<Rightarrow> None | Some t \<Rightarrow> timeClip (t + n * msPerDay))"

text \<open>\<^verbatim>\<open>d.setMonth(d.getMonth() + n)\<close>, on the local calendar fields.\<close>

definition addMonths :: "int \<Rightarrow> jsdate \<Rightarrow> int \<Rightarrow> jsdate" where
  "addMonths tz d n =
     (case d of None \<Rightarrow> None
      | Some t \<Rightarrow>
          (case civilFromDays (dayOf (t + tz)) of
             (y, m, dt) \<Rightarrow>
               timeClip (makeDay y (m - 1 + n) dt * msPerDay + timeWithinDay (t + tz) - tz)))"

text \<open>\<^verbatim>\<open>d.setFullYear(d.getFullYear() + n)\<close>, on the local calendar fields.\<close>

definition addYears :: "int \<Rightarrow> jsdate \<Rightarrow> int \<Rightarrow> jsdate" where
  "addYears tz d n =
     (case d of None \<Rightarrow> None
      | Some t \<Rightarrow>
          (case civilFromDays (dayOf (t + tz)) of
             (y, m, dt) \<Rightarrow>
               timeClip (makeDay (y + n) (m - 1) dt * msPerDay + timeWithinDay (t + tz) - tz)))"

text \<open>\<^verbatim>\<open>today.setHours(0, 0, 0, 0)\<close>: the time value of local midnight of the same local day.\<close>

definition startOfDay :: "int \<Rightarrow> int \<Rightarrow> int" where
  "startOfDay tz t = dayOf (t + tz) * msPerDay - tz"

text \<open>\<^verbatim>\<open>a < b\<close> on two date objects compares the time values; with an invalid date it is false.\<close>

definition dateLess :: "jsdate \<Rightarrow> jsdate \<Rightarrow> bool" where
  "dateLess a b = (case (a, b) of (Some x, Some y) \<Rightarrow> x < y | _ \<Rightarrow> False)"

text \<open>
  A date goes to the database as the text \<^verbatim>\<open>toISOString\<close> gives. From 0001-01-01 to
  9999-12-31 that text starts with a four-digit year and the database reads it; outside it
  the database refuses the text.
\<close>

definition isoAccepted :: "int \<Rightarrow> bool" where
  "isoAccepted t = (- 62135596800000 \<le> t \<and> t \<le> 253402300799999)"

section \<open>The data model\<close>

text \<open>
  The rows of the tables the payment workflow touches, with the columns of the schema that
  the modelled operations read or write (contact details, avatar links and the like are
  carried by no operation below and are left out). A nullable column is an \<open>option\<close>.
  A stored date or timestamp is represented by the time value that \<^verbatim>\<open>new Date(...)\<close> reads
  from it; the store is taken to hold valid dates only. Strings are sequences of 8-bit
  characters; the two accented letters of the audit texts are written by their code
  points.
\<close>

record user =
  u_id :: int
  u_username :: string
  u_name :: string
  u_role :: string

record membershipPlan =
  mp_id :: int
  mp_name :: string
  mp_price :: int
  mp_duration :: int
  mp_durationType :: string
  mp_isActive :: bool

record member =
  m_id :: int
  m_firstName :: string
  m_lastName :: string
  m_email :: string
  m_planId :: "int option"
  m_status :: "string option"
  m_expiryDate :: "int option"

record payment =
  p_id :: int
  p_memberId :: int
  p_amount :: int
  p_paymentDate :: int
  p_paymentMethod :: string
  p_planId :: int
  p_status :: string
  p_receiptUrl :: "string option"
  p_notes :: "string option"
  p_verifiedById :: "int option"
  p_verifiedAt :: "int option"

text \<open>\<^verbatim>\<open>InsertPayment\<close>: columns with a default (\<^verbatim>\<open>paymentDate\<close>, \<^verbatim>\<open>status\<close>) may be omitted.\<close>

record insertPayment =
  ip_memberId :: int
  ip_amount :: int
  ip_paymentDate :: "int option"
  ip_paymentMethod :: string
  ip_planId :: int
  ip_status :: "string option"
  ip_receiptUrl :: "string option"
  ip_notes :: "string option"
  ip_verifiedById :: "int option"
  ip_verifiedAt :: "int option"

record activity =
  a_id :: int
  a_userId :: "int option"
  a_memberId :: "int option"
  a_activityType :: string
  a_description :: string
  a_timestamp :: int

record insertActivity =
  ia_userId :: "int option"
  ia_memberId :: "int option"
  ia_activityType :: string
  ia_description :: string
  ia_timestamp :: int

text \<open>
  \<^verbatim>\<open>Partial<Member>\<close> as the workflow uses it: each of the three keys is present or absent.
\<close>

record memberData =
  md_status :: "string option"
  md_planId :: "int option"
  md_expiryDate :: "int option"

text \<open>
  The store: one list of rows per table, in insertion order, and the two serial counters
  the workflow draws from. The type of the payment rows is a parameter, since the
  in-memory implementation keeps payment objects of another shape; its maps iterate in
  insertion order and its counters are fields of the object.
\<close>

record 'p storage =
  users :: "user list"
  membershipPlans :: "membershipPlan list"
  members :: "member list"
  payments :: "'p list"
  activities :: "activity list"
  paymentIdCounter :: int
  activityIdCounter :: int

text \<open>
  An operation returns its result, or stops with the exception it raised; either way the
  store is left as the statements run so far made it (nothing is rolled back). The code
  raises nothing by itself but the \<^verbatim>\<open>RangeError\<close> of \<^verbatim>\<open>toISOString\<close> on an invalid date; the
  database raises when it refuses a statement, which the caller sees as a failure of the
  store. Every operation takes the reading of the clock as an argument \<open>now\<close>: the instants
  that one call reads with \<^verbatim>\<open>new Date()\<close> are taken to be the same, and to be a date the
  database accepts.
\<close>

datatype jsError = RangeError | StoreFailure

datatype 'a outcome = Returned 'a | Threw jsError

section \<open>Lookups and audit entries\<close>

definition getUser :: "'p storage \<Rightarrow> int \<Rightarrow> user option" where
  "getUser s i = find (\<lambda>u. u_id u = i) (users s)"

definition getMembershipPlan :: "'p storage \<Rightarrow> int \<Rightarrow> membershipPlan option" where
  "getMembershipPlan s i = find (\<lambda>p. mp_id p = i) (membershipPlans s)"

definition getMember :: "'p storage \<Rightarrow> int \<Rightarrow> member option" where
  "getMember s i = find (\<lambda>m. m_id m = i) (members s)"

definition getPayment :: "payment storage \<Rightarrow> int \<Rightarrow> payment option" where
  "getPayment s i = find (\<lambda>p. p_id p = i) (payments s)"

definition createActivity :: "'p storage \<Rightarrow> insertActivity \<Rightarrow> 'p storage" where
  "createActivity s a =
     s\<lparr>activities := activities s @
          [\<lparr>a_id = activityIdCounter s, a_userId = ia_userId a, a_memberId = ia_memberId a,
            a_activityType = ia_activityType a, a_description = ia_description a,
            a_timestamp = ia_timestamp a\<rparr>],
       activityIdCounter := activityIdCounter s + 1\<rparr>"

text \<open>Decimal digits of a natural number, and \<^verbatim>\<open>(amount / 100).toFixed(2)\<close> for whole cents.\<close>

fun showNat :: "nat \<Rightarrow> string" where
  "showNat n = (if n < 10 then [char_of (48 + n)]
                else showNat (n div 10) @ [char_of (48 + n mod 10)])"

definition toFixed2 :: "int \<Rightarrow> string" where
  "toFixed2 amount =
     (let a = nat \<bar>amount\<bar>
      in (if amount < 0 then ''-'' else []) @ showNat (a div 100) @ ''.'' @
         [char_of (48 + (a mod 100) div 10), char_of (48 + a mod 10)])"

definition fullName :: "member \<Rightarrow> string" where
  "fullName m = m_firstName m @ '' '' @ m_lastName m"

section \<open>DatabaseStorage\<close>

subsection \<open>What the schema makes the database refuse\<close>

text \<open>
  The schema declares three foreign keys, all on the payments table: \<^verbatim>\<open>member_id\<close> refers to
  a member, \<^verbatim>\<open>plan_id\<close> to a membership plan, and \<^verbatim>\<open>verified_by_id\<close>, when it is not null,
  to a user. The database refuses an insert or an update that would leave a payment row
  without the row it refers to, so the payments of a store that the database holds all
  have their member, their plan and their verifier. The ids are primary keys.
\<close>

definition refersToUser :: "'p storage \<Rightarrow> int option \<Rightarrow> bool" where
  "refersToUser s v = (case v of None \<Rightarrow> True | Some u \<Rightarrow> getUser s u \<noteq> None)"

definition paymentRefsHold :: "'p storage \<Rightarrow> payment \<Rightarrow> bool" where
  "paymentRefsHold s p =
     (getMember s (p_memberId p) \<noteq> None \<and> getMembershipPlan s (p_planId p) \<noteq> None \<and>
      refersToUser s (p_verifiedById p))"

definition foreignKeysHold :: "payment storage \<Rightarrow> bool" where
  "foreignKeysHold s = list_all (paymentRefsHold s) (payments s)"

text \<open>
  \<^verbatim>\<open>members.expiryDate\<close> is a \<^verbatim>\<open>date\<close> column: of the ISO timestamp the code writes, the
  column keeps the calendar day, which reads back as that day's midnight in UTC.
\<close>

definition dateColumn :: "int \<Rightarrow> int" where
  "dateColumn t = dayOf t * msPerDay"

definition setMemberData :: "memberData \<Rightarrow> member \<Rightarrow> member" where
  "setMemberData d m =
     m\<lparr>m_status := (case md_status d of None \<Rightarrow> m_status m | Some v \<Rightarrow> Some v),
       m_planId := (case md_planId d of None \<Rightarrow> m_planId m | Some v \<Rightarrow> Some v),
       m_expiryDate := (case md_expiryDate d of None \<Rightarrow> m_expiryDate m
                        | Some t \<Rightarrow> Some (dateColumn t))\<rparr>"

text \<open>
  \<^verbatim>\<open>db.update(members).set(data).where(eq(members.id, id))\<close>: every row with that id. The
  statement is refused when the expiry date it carries is a text the database cannot read.
\<close>

definition memberDataAccepted :: "memberData \<Rightarrow> bool" where
  "memberDataAccepted d = (case md_expiryDate d of None \<Rightarrow> True | Some t \<Rightarrow> isoAccepted t)"

definition updateMemberRows :: "int \<Rightarrow> memberData \<Rightarrow> member list \<Rightarrow> member list" where
  "updateMemberRows i d rows = map (\<lambda>r. if m_id r = i then setMemberData d r else r) rows"

definition updateMember ::
  "int \<Rightarrow> payment storage \<Rightarrow> int \<Rightarrow> memberData \<Rightarrow> member option outcome \<times> payment storage" where
  "updateMember now s i d =
     (if \<not> memberDataAccepted d then (Threw StoreFailure, s)
      else
        (let s1 = s\<lparr>members := updateMemberRows i d (members s)\<rparr>
         in case getMember s1 i of
              None \<Rightarrow> (Returned None, s1)
            | Some updatedMember \<Rightarrow>
                (Returned (Some updatedMember),
                 createActivity s1
                   \<lparr>ia_userId = None, ia_memberId = Some i, ia_activityType = ''member_updated'',
                    ia_description = ''Member updated: '' @ fullName updatedMember,
                    ia_timestamp = now\<rparr>)))"

subsection \<open>getMembers: the expiry sweep\<close>

definition needsExpiry :: "int \<Rightarrow> member \<Rightarrow> bool" where
  "needsExpiry today m =
     (m_status m = Some ''active'' \<and>
      (case m_expiryDate m of None \<Rightarrow> False | Some e \<Rightarrow> e < today))"

definition expireActivity :: "int \<Rightarrow> member \<Rightarrow> insertActivity" where
  "expireActivity now m =
     \<lparr>ia_userId = None, ia_memberId = Some (m_id m), ia_activityType = ''membership_expired'',
      ia_description = ''Membership expired for: '' @ fullName m, ia_timestamp = now\<rparr>"

text \<open>The loop over \<^verbatim>\<open>membersToUpdate\<close>: one update by id and one audit entry per element.\<close>

fun expireLoop :: "int \<Rightarrow> member list \<Rightarrow> payment storage \<Rightarrow> payment storage" where
  "expireLoop now [] s = s"
| "expireLoop now (member # rest) s =
     expireLoop now rest
       (createActivity
          (s\<lparr>members := updateMemberRows (m_id member)
                 \<lparr>md_status = Some ''expired'', md_planId = None, md_expiryDate = None\<rparr>
                 (members s)\<rparr>)
          (expireActivity now member))"

definition getMembers :: "int \<Rightarrow> int \<Rightarrow> payment storage \<Rightarrow> member list \<times> payment storage" where
  "getMembers tz now s =
     (let membersList = members s;
          today = startOfDay tz now;
          membersToUpdate = filter (needsExpiry today) membersList
      in (map (\<lambda>m. if needsExpiry today m then m\<lparr>m_status := Some ''expired''\<rparr> else m) membersList,
          expireLoop now membersToUpdate s))"

subsection \<open>verifyPayment\<close>

text \<open>
  The expiry date that \<^verbatim>\<open>verifyPayment\<close> computes from the plan and the member's row, in
  the two steps of the function body: the choice of the date to start from, and the
  \<^verbatim>\<open>switch\<close> on the plan's duration type, which has four arms and no default.
\<close>

definition verifyBaseDate :: "int option \<Rightarrow> int \<Rightarrow> jsdate" where
  "verifyBaseDate memberExpiry now =
     (let currentDate = Some now;
          expiryDate = (case memberExpiry of Some e \<Rightarrow> Some e | None \<Rightarrow> currentDate)
      in if dateLess expiryDate currentDate then currentDate else expiryDate)"

definition verifyAddDuration :: "int \<Rightarrow> membershipPlan \<Rightarrow> jsdate \<Rightarrow> jsdate" where
  "verifyAddDuration tz plan expiryDate =
     (if mp_durationType plan = ''day'' then addDays expiryDate (mp_duration plan)
      else if mp_durationType plan = ''week'' then addDays expiryDate (mp_duration plan * 7)
      else if mp_durationType plan = ''month'' then addMonths tz expiryDate (mp_duration plan)
      else if mp_durationType plan = ''year'' then addYears tz expiryDate (mp_duration plan)
      else expiryDate)"

definition verifyExpiry :: "int \<Rightarrow> membershipPlan \<Rightarrow> int option \<Rightarrow> int \<Rightarrow> jsdate" where
  "verifyExpiry tz plan memberExpiry now =
     verifyAddDuration tz plan (verifyBaseDate memberExpiry now)"

definition markVerified :: "int \<Rightarrow> int \<Rightarrow> payment \<Rightarrow> payment" where
  "markVerified adminId now p =
     p\<lparr>p_status := ''verified'', p_verifiedById := Some adminId, p_verifiedAt := Some now\<rparr>"

text \<open>
  The update of the payment writes \<^verbatim>\<open>verified_by_id\<close>: the database refuses it when the
  administrator's id is no user's, and then nothing has been written.
\<close>

definition verifyPayment ::
  "int \<Rightarrow> int \<Rightarrow> payment storage \<Rightarrow> int \<Rightarrow> int \<Rightarrow> payment option outcome \<times> payment storage" where
  "verifyPayment tz now s i adminId =
     (case getPayment s i of
        None \<Rightarrow> (Returned None, s)
      | Some payment \<Rightarrow>
          if getUser s adminId = None then (Threw StoreFailure, s)
          else
          (let s1 = s\<lparr>payments := map (\<lambda>r. if p_id r = i then markVerified adminId now r else r)
                                      (payments s)\<rparr>;
               updatedPayment = getPayment s1 i
           in case (getMember s1 (p_memberId payment), getUser s1 adminId,
                    getMembershipPlan s1 (p_planId payment)) of
                (Some member, Some admin, Some plan) \<Rightarrow>
                  (let s2 = createActivity s1
                        \<lparr>ia_userId = Some adminId, ia_memberId = Some (p_memberId payment),
                         ia_activityType = ''payment_verified'',
                         ia_description = ''Pago de '' @ fullName member @ '' por '' @ mp_name plan @
                                          '' verificado por '' @ u_name admin,
                         ia_timestamp = now\<rparr>
                   in case verifyExpiry tz plan (m_expiryDate member) now of
                        None \<Rightarrow> (Threw RangeError, s2)
                      | Some t \<Rightarrow>
                          (case updateMember now s2 (m_id member)
                                  \<lparr>md_status = Some ''active'', md_planId = Some (mp_id plan),
                                   md_expiryDate = Some t\<rparr> of
                             (Threw e, s3) \<Rightarrow> (Threw e, s3)
                           | (Returned updatedMember, s3) \<Rightarrow>
                               (Returned updatedPayment,
                                createActivity s3
                                  \<lparr>ia_userId = Some adminId, ia_memberId = Some (m_id member),
                                   ia_activityType = ''membership_activated'',
                                   ia_description = ''Membres'' @ [CHR 0xED] @ ''a '' @ mp_name plan @
                                                    '' activada para '' @ fullName member,
                                   ia_timestamp = now\<rparr>)))
              | _ \<Rightarrow> (Returned updatedPayment, s1)))"

subsection \<open>createPayment\<close>

text \<open>\<^verbatim>\<open>paymentData.status || 'verified'\<close>: an absent and an empty status both give the default.\<close>

definition resolveStatus :: "string option \<Rightarrow> string" where
  "resolveStatus st = (case st of None \<Rightarrow> ''verified'' | Some v \<Rightarrow> if v = [] then ''verified'' else v)"

text \<open>\<^verbatim>\<open>paymentData.verifiedById || null\<close>: an absent id and the id 0 both give null.\<close>

definition orNull :: "int option \<Rightarrow> int option" where
  "orNull v = (case v of None \<Rightarrow> None | Some n \<Rightarrow> if n = 0 then None else Some n)"

text \<open>
  The duration \<^verbatim>\<open>createPayment\<close> works with, and its \<^verbatim>\<open>switch\<close> on the plan's duration type:
  five names in four arms and a default arm.
\<close>

definition createDuration :: "membershipPlan \<Rightarrow> int" where
  "createDuration plan = (if mp_duration plan > 0 then mp_duration plan else 1)"

definition createAddDuration :: "int \<Rightarrow> membershipPlan \<Rightarrow> jsdate \<Rightarrow> jsdate" where
  "createAddDuration tz plan expiryDate =
     (let duration = createDuration plan
      in if mp_durationType plan = ''daily'' then addDays expiryDate duration
         else if mp_durationType plan = ''weekly'' then addDays expiryDate (duration * 7)
         else if mp_durationType plan = ''monthly'' then addMonths tz expiryDate duration
         else if mp_durationType plan = ''yearly'' \<or> mp_durationType plan = ''annual''
           then addYears tz expiryDate duration
         else addDays expiryDate duration)"

text \<open>The expiry date that \<^verbatim>\<open>createPayment\<close> computes: duration, then one more day.\<close>

definition createExpiry :: "int \<Rightarrow> membershipPlan \<Rightarrow> int \<Rightarrow> jsdate" where
  "createExpiry tz plan paymentDate = addDays (createAddDuration tz plan (Some paymentDate)) 1"

definition newPaymentRow :: "int \<Rightarrow> int \<Rightarrow> insertPayment \<Rightarrow> payment" where
  "newPaymentRow now i d =
     (let status = resolveStatus (ip_status d)
      in \<lparr>p_id = i, p_memberId = ip_memberId d, p_amount = ip_amount d,
          p_paymentDate = (case ip_paymentDate d of None \<Rightarrow> now | Some t \<Rightarrow> t),
          p_paymentMethod = ip_paymentMethod d, p_planId = ip_planId d, p_status = status,
          p_receiptUrl = ip_receiptUrl d, p_notes = ip_notes d,
          p_verifiedById = (if status = ''verified'' then orNull (ip_verifiedById d) else None),
          p_verifiedAt = (if status = ''verified'' then Some now else None)\<rparr>)"

text \<open>
  The insert is refused when the payment date is a text the database cannot read, and when
  the new row would refer to a member, a plan or a verifier that is not there. In the
  second case the id drawn from the sequence is spent all the same.
\<close>

definition createPayment ::
  "int \<Rightarrow> int \<Rightarrow> payment storage \<Rightarrow> insertPayment \<Rightarrow> payment outcome \<times> payment storage" where
  "createPayment tz now s paymentData =
     (let status = resolveStatus (ip_status paymentData);
          newPayment = newPaymentRow now (paymentIdCounter s) paymentData
      in if \<not> isoAccepted (p_paymentDate newPayment) then (Threw StoreFailure, s)
         else if \<not> paymentRefsHold s newPayment
           then (Threw StoreFailure, s\<lparr>paymentIdCounter := paymentIdCounter s + 1\<rparr>)
         else
         (let s1 = s\<lparr>payments := payments s @ [newPayment],
                    paymentIdCounter := paymentIdCounter s + 1\<rparr>
          in case (getMember s1 (p_memberId newPayment), getMembershipPlan s1 (p_planId newPayment)) of
           (Some member, Some plan) \<Rightarrow>
             (let s2 = createActivity s1
                   \<lparr>ia_userId = None, ia_memberId = Some (p_memberId newPayment),
                    ia_activityType = ''payment_created'',
                    ia_description = fullName member @ '' registr'' @ [CHR 0xF3] @ '' un pago de '' @
                                     toFixed2 (p_amount newPayment) @ '' soles por '' @ mp_name plan,
                    ia_timestamp = now\<rparr>
              in if status = ''verified'' then
                   (case createExpiry tz plan (p_paymentDate newPayment) of
                      None \<Rightarrow> (Threw RangeError, s2)
                    | Some t \<Rightarrow>
                        if \<not> isoAccepted t then (Threw StoreFailure, s2)
                        else
                        (let s3 = s2\<lparr>members := updateMemberRows (m_id member)
                                     \<lparr>md_status = Some ''active'', md_planId = Some (mp_id plan),
                                      md_expiryDate = Some t\<rparr> (members s2)\<rparr>;
                             s4 = createActivity s3
                               \<lparr>ia_userId = p_verifiedById newPayment, ia_memberId = Some (m_id member),
                                ia_activityType = ''membership_activated'',
                                ia_description = ''Membres'' @ [CHR 0xED] @ ''a '' @ mp_name plan @
                                                 '' activada para '' @ fullName member,
                                ia_timestamp = now\<rparr>
                         in (Returned newPayment, s4)))
                 else (Returned newPayment, s2))
         | _ \<Rightarrow> (Returned newPayment, s1)))"

text \<open>The inserts the database does not refuse.\<close>

definition insertAccepted :: "int \<Rightarrow> payment storage \<Rightarrow> insertPayment \<Rightarrow> bool" where
  "insertAccepted now s d =
     (isoAccepted (p_paymentDate (newPaymentRow now (paymentIdCounter s) d)) \<and>
      paymentRefsHold s (newPaymentRow now (paymentIdCounter s) d))"

subsection \<open>rejectPayment\<close>

text \<open>
  The update names \<^verbatim>\<open>notes\<close> in every call; a key whose value is undefined is not written,
  so the stored notes stay when the argument is omitted. It writes \<^verbatim>\<open>verified_by_id\<close> too:
  when it finds the payment and the administrator's id is no user's, the database refuses
  it; when it finds no payment there is no row to refuse.
\<close>

definition markRejected :: "int \<Rightarrow> int \<Rightarrow> string option \<Rightarrow> payment \<Rightarrow> payment" where
  "markRejected adminId now notes p =
     p\<lparr>p_status := ''rejected'', p_verifiedById := Some adminId, p_verifiedAt := Some now,
       p_notes := (case notes of None \<Rightarrow> p_notes p | Some n \<Rightarrow> Some n)\<rparr>"

definition rejectPayment ::
  "int \<Rightarrow> payment storage \<Rightarrow> int \<Rightarrow> int \<Rightarrow> string option \<Rightarrow>
   payment option outcome \<times> payment storage" where
  "rejectPayment now s i adminId notes =
     (if getPayment s i \<noteq> None \<and> getUser s adminId = None then (Threw StoreFailure, s)
      else
      (let s1 = s\<lparr>payments := map (\<lambda>r. if p_id r = i then markRejected adminId now notes r else r)
                                  (payments s)\<rparr>
       in case getPayment s1 i of
            None \<Rightarrow> (Returned None, s1)
          | Some updatedPayment \<Rightarrow>
              (case (getMember s1 (p_memberId updatedPayment), getUser s1 adminId) of
                 (Some member, Some admin) \<Rightarrow>
                   (Returned (Some updatedPayment),
                    createActivity s1
                      \<lparr>ia_userId = Some adminId, ia_memberId = Some (p_memberId updatedPayment),
                       ia_activityType = ''payment_rejected'',
                       ia_description = ''Pago de '' @ fullName member @ '' fue rechazado por '' @
                                        u_name admin,
                       ia_timestamp = now\<rparr>)
               | _ \<Rightarrow> (Returned (Some updatedPayment), s1))))"

section \<open>MemStorage\<close>

text \<open>
  The in-memory implementation of the same interface; its methods carry the prefix
  \<open>mem\<close>, the names without a prefix are those of \<^verbatim>\<open>DatabaseStorage\<close>, the object the module
  exports as \<^verbatim>\<open>storage\<close>. It keeps whatever value it is given and refuses nothing: a payment
  is the insert object with an id added (\<^verbatim>\<open>{...paymentData, id}\<close>), so a payment created
  without a status has none; an expiry date is stored with its time of day; a payment may
  name a member, a plan or a user that is not there. \<^verbatim>\<open>Map.set\<close> on a present key replaces
  the value in place.
\<close>

record memPayment = insertPayment +
  mq_id :: int

definition mem_getPayment :: "memPayment storage \<Rightarrow> int \<Rightarrow> memPayment option" where
  "mem_getPayment s i = find (\<lambda>p. mq_id p = i) (payments s)"

definition mem_createPayment ::
  "int \<Rightarrow> memPayment storage \<Rightarrow> insertPayment \<Rightarrow> memPayment \<times> memPayment storage" where
  "mem_createPayment now s paymentData =
     (let payment = \<lparr>ip_memberId = ip_memberId paymentData, ip_amount = ip_amount paymentData,
                      ip_paymentDate = ip_paymentDate paymentData,
                      ip_paymentMethod = ip_paymentMethod paymentData,
                      ip_planId = ip_planId paymentData, ip_status = ip_status paymentData,
                      ip_receiptUrl = ip_receiptUrl paymentData, ip_notes = ip_notes paymentData,
                      ip_verifiedById = ip_verifiedById paymentData,
                      ip_verifiedAt = ip_verifiedAt paymentData,
                      mq_id = paymentIdCounter s\<rparr>;
          s1 = s\<lparr>payments := payments s @ [payment],
                 paymentIdCounter := paymentIdCounter s + 1\<rparr>
      in case (getMember s1 (ip_memberId payment), getMembershipPlan s1 (ip_planId payment)) of
           (Some member, Some plan) \<Rightarrow>
             (payment,
              createActivity s1
                \<lparr>ia_userId = None, ia_memberId = Some (ip_memberId payment),
                 ia_activityType = ''payment_created'',
                 ia_description = fullName member @ '' registr'' @ [CHR 0xF3] @ '' un pago de '' @
                                  toFixed2 (ip_amount payment) @ '' soles por '' @ mp_name plan,
                 ia_timestamp = now\<rparr>)
         | _ \<Rightarrow> (payment, s1))"

definition mem_setMemberData :: "memberData \<Rightarrow> member \<Rightarrow> member" where
  "mem_setMemberData d m =
     m\<lparr>m_status := (case md_status d of None \<Rightarrow> m_status m | Some v \<Rightarrow> Some v),
       m_planId := (case md_planId d of None \<Rightarrow> m_planId m | Some v \<Rightarrow> Some v),
       m_expiryDate := (case md_expiryDate d of None \<Rightarrow> m_expiryDate m | Some t \<Rightarrow> Some t)\<rparr>"

definition mem_updateMember ::
  "int \<Rightarrow> memPayment storage \<Rightarrow> int \<Rightarrow> memberData \<Rightarrow> member option \<times> memPayment storage" where
  "mem_updateMember now s i d =
     (case getMember s i of
        None \<Rightarrow> (None, s)
      | Some member \<Rightarrow>
          (let updatedMember = mem_setMemberData d member;
               s1 = s\<lparr>members := map (\<lambda>r. if m_id r = i then updatedMember else r) (members s)\<rparr>
           in (Some updatedMember,
               createActivity s1
                 \<lparr>ia_userId = None, ia_memberId = Some i, ia_activityType = ''member_updated'',
                  ia_description = ''Member updated: '' @ fullName updatedMember,
                  ia_timestamp = now\<rparr>)))"

text \<open>
  \<^verbatim>\<open>MemStorage.getMembers\<close> walks a snapshot of the values and compares each expiry date
  with the current instant, not with midnight.
\<close>

fun mem_expireLoop :: "int \<Rightarrow> member list \<Rightarrow> memPayment storage \<Rightarrow> memPayment storage" where
  "mem_expireLoop now [] s = s"
| "mem_expireLoop now (member # rest) s =
     mem_expireLoop now rest
       (if needsExpiry now member then
          createActivity
            (s\<lparr>members := map (\<lambda>r. if m_id r = m_id member then member\<lparr>m_status := Some ''expired''\<rparr>
                                   else r) (members s)\<rparr>)
            (expireActivity now member)
        else s)"

definition mem_getMembers :: "int \<Rightarrow> memPayment storage \<Rightarrow> member list \<times> memPayment storage" where
  "mem_getMembers now s = (let s' = mem_expireLoop now (members s) s in (members s', s'))"

definition mem_verifyAddDuration :: "int \<Rightarrow> membershipPlan \<Rightarrow> jsdate \<Rightarrow> jsdate" where
  "mem_verifyAddDuration tz plan expiryDate =
     (if mp_durationType plan = ''day'' then addDays expiryDate (mp_duration plan)
      else if mp_durationType plan = ''week'' then addDays expiryDate (mp_duration plan * 7)
      else if mp_durationType plan = ''month'' then addMonths tz expiryDate (mp_duration plan)
      else if mp_durationType plan = ''year'' then addYears tz expiryDate (mp_duration plan)
      else expiryDate)"

definition mem_markVerified :: "int \<Rightarrow> int \<Rightarrow> memPayment \<Rightarrow> memPayment" where
  "mem_markVerified adminId now p =
     p\<lparr>ip_status := Some ''verified'', ip_verifiedById := Some adminId, ip_verifiedAt := Some now\<rparr>"

definition mem_verifyPayment ::
  "int \<Rightarrow> int \<Rightarrow> memPayment storage \<Rightarrow> int \<Rightarrow> int \<Rightarrow>
   memPayment option outcome \<times> memPayment storage" where
  "mem_verifyPayment tz now s i adminId =
     (case mem_getPayment s i of
        None \<Rightarrow> (Returned None, s)
      | Some payment \<Rightarrow>
          (let updatedPayment = mem_markVerified adminId now payment;
               s1 = s\<lparr>payments := map (\<lambda>r. if mq_id r = i then updatedPayment else r) (payments s)\<rparr>
           in case (getMember s1 (ip_memberId payment), getUser s1 adminId,
                    getMembershipPlan s1 (ip_planId payment)) of
                (Some member, Some admin, Some plan) \<Rightarrow>
                  (let s2 = createActivity s1
                        \<lparr>ia_userId = Some adminId, ia_memberId = Some (ip_memberId payment),
                         ia_activityType = ''payment_verified'',
                         ia_description = ''Pago de '' @ fullName member @ '' por '' @ mp_name plan @
                                          '' verificado por '' @ u_name admin,
                         ia_timestamp = now\<rparr>;
                       currentDate = Some now;
                       expiryDate = (case m_expiryDate member of Some e \<Rightarrow> Some e | None \<Rightarrow> currentDate);
                       expiryDate = (if dateLess expiryDate currentDate then currentDate else expiryDate)
                   in case mem_verifyAddDuration tz plan expiryDate of
                        None \<Rightarrow> (Threw RangeError, s2)
                      | Some t \<Rightarrow>
                          (Returned (Some updatedPayment),
                           snd (mem_updateMember now s2 (m_id member)
                                  \<lparr>md_status = Some ''active'', md_planId = None,
                                   md_expiryDate = Some t\<rparr>)))
              | _ \<Rightarrow> (Returned (Some updatedPayment), s1)))"

text \<open>\<^verbatim>\<open>notes || payment.notes\<close>: an absent and an empty note both keep the stored notes.\<close>

definition mem_markRejected :: "int \<Rightarrow> int \<Rightarrow> string option \<Rightarrow> memPayment \<Rightarrow> memPayment" where
  "mem_markRejected adminId now notes p =
     p\<lparr>ip_status := Some ''rejected'', ip_verifiedById := Some adminId, ip_verifiedAt := Some now,
       ip_notes := (case notes of None \<Rightarrow> ip_notes p
                    | Some n \<Rightarrow> if n = [] then ip_notes p else Some n)\<rparr>"

definition mem_rejectPayment ::
  "int \<Rightarrow> memPayment storage \<Rightarrow> int \<Rightarrow> int \<Rightarrow> string option \<Rightarrow>
   memPayment option \<times> memPayment storage" where
  "mem_rejectPayment now s i adminId notes =
     (case mem_getPayment s i of
        None \<Rightarrow> (None, s)
      | Some payment \<Rightarrow>
          (let updatedPayment = mem_markRejected adminId now notes payment;
               s1 = s\<lparr>payments := map (\<lambda>r. if mq_id r = i then updatedPayment else r) (payments s)\<rparr>
           in case (getMember s1 (ip_memberId payment), getUser s1 adminId) of
                (Some member, Some admin) \<Rightarrow>
                  (Some updatedPayment,
                   createActivity s1
                     \<lparr>ia_userId = Some adminId, ia_memberId = Some (ip_memberId payment),
                      ia_activityType = ''payment_rejected'',
                      ia_description = ''Pago de '' @ fullName member @ '' rechazado por '' @
                                       u_name admin @
                                       (case notes of None \<Rightarrow> []
                                        | Some n \<Rightarrow> if n = [] then [] else '': '' @ n),
                      ia_timestamp = now\<rparr>)
              | _ \<Rightarrow> (Some updatedPayment, s1)))"

text \<open>
  To set the two implementations side by side: the object that holds what a payment row
  holds, and the in-memory store that holds what a database store holds.
\<close>

definition stored :: "payment \<Rightarrow> memPayment" where
  "stored p =
     \<lparr>ip_memberId = p_memberId p, ip_amount = p_amount p, ip_paymentDate = Some (p_paymentDate p),
      ip_paymentMethod = p_paymentMethod p, ip_planId = p_planId p, ip_status = Some (p_status p),
      ip_receiptUrl = p_receiptUrl p, ip_notes = p_notes p, ip_verifiedById = p_verifiedById p,
      ip_verifiedAt = p_verifiedAt p, mq_id = p_id p\<rparr>"

definition memStore :: "payment storage \<Rightarrow> memPayment storage" where
  "memStore s =
     \<lparr>users = users s, membershipPlans = membershipPlans s, members = members s,
      payments = map stored (payments s), activities = activities s,
      paymentIdCounter = paymentIdCounter s, activityIdCounter = activityIdCounter s\<rparr>"

text \<open>What \<^verbatim>\<open>DatabaseStorage\<close> answered, told with the objects of \<^verbatim>\<open>MemStorage\<close>.\<close>

definition storedResult :: "payment option outcome \<Rightarrow> memPayment option outcome" where
  "storedResult r = (case r of Returned x \<Rightarrow> Returned (map_option stored x) | Threw e \<Rightarrow> Threw e)"

section \<open>A small store to run the operations on\<close>

text \<open>
  One administrator; a monthly plan named as the seeded plans are, a 30-day pass and a
  two-week plan named with the older type names, and a daily plan with the largest
  duration the column holds; a pending member, a member whose expiry date passed five
  days ago and a member whose membership ends today; two pending payments of the first
  member. Every payment has its member and its plan. The clock reads 2024-01-15, 10:00 in
  UTC; for a server in Lima, 10:00 there is 15:00 in UTC.
\<close>

definition zoneUTC :: int where
  "zoneUTC = 0"

definition zoneLima :: int where
  "zoneLima = - 18000000"

definition demoNow :: int where
  "demoNow = 1705312800000"

definition limaNow :: int where
  "limaNow = 1705330800000"

definition demoAdmin :: user where
  "demoAdmin = \<lparr>u_id = 1, u_username = ''admin'', u_name = ''Admin'', u_role = ''admin''\<rparr>"

definition planMensual :: membershipPlan where
  "planMensual = \<lparr>mp_id = 1, mp_name = ''Mensual'', mp_price = 7000, mp_duration = 1,
                  mp_durationType = ''monthly'', mp_isActive = True\<rparr>"

definition planPase :: membershipPlan where
  "planPase = \<lparr>mp_id = 2, mp_name = ''Pase'', mp_price = 3000, mp_duration = 30,
               mp_durationType = ''day'', mp_isActive = True\<rparr>"

definition planQuincena :: membershipPlan where
  "planQuincena = \<lparr>mp_id = 3, mp_name = ''Quincena'', mp_price = 2000, mp_duration = 2,
                   mp_durationType = ''week'', mp_isActive = True\<rparr>"

definition planVitalicio :: membershipPlan where
  "planVitalicio = \<lparr>mp_id = 4, mp_name = ''Vitalicio'', mp_price = 900000,
                    mp_duration = 2147483647, mp_durationType = ''daily'', mp_isActive = True\<rparr>"

definition memberAna :: member where
  "memberAna = \<lparr>m_id = 1, m_firstName = ''Ana'', m_lastName = ''Diaz'', m_email = ''ana@gym.pe'',
                m_planId = None, m_status = Some ''pending'', m_expiryDate = None\<rparr>"

definition memberLuis :: member where
  "memberLuis = \<lparr>m_id = 2, m_firstName = ''Luis'', m_lastName = ''Paz'', m_email = ''luis@gym.pe'',
                 m_planId = Some 2, m_status = Some ''active'', m_expiryDate = Some 1704844800000\<rparr>"

definition memberEva :: member where
  "memberEva = \<lparr>m_id = 3, m_firstName = ''Eva'', m_lastName = ''Ruiz'', m_email = ''eva@gym.pe'',
                m_planId = Some 2, m_status = Some ''active'', m_expiryDate = Some 1705276800000\<rparr>"

definition paymentOne :: payment where
  "paymentOne = \<lparr>p_id = 1, p_memberId = 1, p_amount = 7000, p_paymentDate = 1705226400000,
                 p_paymentMethod = ''Yape'', p_planId = 1, p_status = ''pending'',
                 p_receiptUrl = None, p_notes = Some ''recibo'', p_verifiedById = None,
                 p_verifiedAt = None\<rparr>"

definition paymentTwo :: payment where
  "paymentTwo = \<lparr>p_id = 2, p_memberId = 1, p_amount = 3000, p_paymentDate = 1705226400000,
                 p_paymentMethod = ''efectivo'', p_planId = 2, p_status = ''pending'',
                 p_receiptUrl = None, p_notes = None, p_verifiedById = None,
                 p_verifiedAt = None\<rparr>"

definition demoStore :: "payment storage" where
  "demoStore = \<lparr>users = [demoAdmin],
                membershipPlans = [planMensual, planPase, planQuincena, planVitalicio],
                members = [memberAna, memberLuis, memberEva],
                payments = [paymentOne, paymentTwo],
                activities = [],
                paymentIdCounter = 3,
                activityIdCounter = 1\<rparr>"

definition demoInsert :: "int \<Rightarrow> int \<Rightarrow> string option \<Rightarrow> insertPayment" where
  "demoInsert memberId planId status =
     \<lparr>ip_memberId = memberId, ip_amount = 7000, ip_paymentDate = Some demoNow,
      ip_paymentMethod = ''efectivo'', ip_planId = planId, ip_status = status,
      ip_receiptUrl = None, ip_notes = None, ip_verifiedById = Some 1, ip_verifiedAt = None\<rparr>"

text \<open>The columns of an audit entry without its serial id.\<close>

definition activityData :: "activity \<Rightarrow> insertActivity" where
  "activityData a =
     \<lparr>ia_userId = a_userId a, ia_memberId = a_memberId a, ia_activityType = a_activityType a,
      ia_description = a_description a, ia_timestamp = a_timestamp a\<rparr>"

text \<open>The audit entries an operation appended, and how many of them report a member's expiry.\<close>

definition newActivities :: "'p storage \<Rightarrow> 'q storage \<Rightarrow> activity list" where
  "newActivities s s' = drop (length (activities s)) (activities s')"

definition expiredEntriesFor :: "int \<Rightarrow> activity list \<Rightarrow> nat" where
  "expiredEntriesFor i as =
     length (filter (\<lambda>a. a_activityType a = ''membership_expired'' \<and> a_memberId a = Some i) as)"

section \<open>Facts about lookups and updates by id\<close>

lemma find_map_upd:
  assumes "\<And>r. k (f r) = k r"
  shows "find (\<lambda>r. k r = j) (map (\<lambda>r. if k r = i then f r else r) xs) =
         (if j = i then map_option f (find (\<lambda>r. k r = i) xs) else find (\<lambda>r. k r = j) xs)"
  by (induction xs) (auto simp: assms)

lemma find_None_map_id:
  "find (\<lambda>r. k r = i) xs = None \<Longrightarrow> map (\<lambda>r. if k r = i then f r else r) xs = xs"
  by (induction xs) (auto split: if_splits)

lemma find_Some_key: "find (\<lambda>r. k r = i) xs = Some x \<Longrightarrow> k x = i"
  by (induction xs) (auto split: if_splits)

lemma find_in_set: "find P xs = Some x \<Longrightarrow> x \<in> set xs"
  by (induction xs) (auto split: if_splits)

lemma getPayment_marked:
  "getPayment (s\<lparr>payments := map (\<lambda>r. if p_id r = i then markVerified a n r else r) (payments s)\<rparr>) j =
     (if j = i then map_option (markVerified a n) (getPayment s i) else getPayment s j)"
  unfolding getPayment_def by (simp add: find_map_upd markVerified_def)

lemma getMember_id: "getMember s j = Some m \<Longrightarrow> m_id m = j"
  unfolding getMember_def by (rule find_Some_key)

text \<open>A payment of a store whose foreign keys hold has its member and its plan.\<close>

lemma stored_payment_refs:
  assumes "foreignKeysHold s" and "getPayment s i = Some p"
  shows "getMember s (p_memberId p) \<noteq> None" and "getMembershipPlan s (p_planId p) \<noteq> None"
proof -
  have "p \<in> set (payments s)" using assms(2) unfolding getPayment_def by (rule find_in_set)
  with assms(1) have "paymentRefsHold s p" by (simp add: foreignKeysHold_def list_all_iff)
  then show "getMember s (p_memberId p) \<noteq> None" and "getMembershipPlan s (p_planId p) \<noteq> None"
    by (simp_all add: paymentRefsHold_def)
qed

section \<open>What each operation does to the store\<close>

lemma createActivity_frame [simp]:
  "users (createActivity s a) = users s"
  "membershipPlans (createActivity s a) = membershipPlans s"
  "members (createActivity s a) = members s"
  "payments (createActivity s a) = payments s"
  "paymentIdCounter (createActivity s a) = paymentIdCounter s"
  by (simp_all add: createActivity_def)

lemma createActivity_lookups [simp]:
  "getUser (createActivity s a) = getUser s"
  "getMembershipPlan (createActivity s a) = getMembershipPlan s"
  "getMember (createActivity s a) = getMember s"
  "getPayment (createActivity s' a) = getPayment s'"
  by (simp_all add: fun_eq_iff getUser_def getMembershipPlan_def getMember_def getPayment_def)

lemma lookups_payments_upd:
  "getMember (s\<lparr>payments := ps\<rparr>) = getMember s"
  "getUser (s\<lparr>payments := ps\<rparr>) = getUser s"
  "getMembershipPlan (s\<lparr>payments := ps\<rparr>) = getMembershipPlan s"
  by (simp_all add: fun_eq_iff getMember_def getUser_def getMembershipPlan_def)

lemma createActivity_types [simp]:
  "map a_activityType (activities (createActivity s a)) =
     map a_activityType (activities s) @ [ia_activityType a]"
  by (simp add: createActivity_def)

lemma newActivities_types:
  "map a_activityType (newActivities s s') =
     drop (length (activities s)) (map a_activityType (activities s'))"
  by (simp add: newActivities_def drop_map)

lemma m_id_setMemberData [simp]: "m_id (setMemberData d r) = m_id r"
  by (simp add: setMemberData_def)

lemma getMember_updateMemberRows:
  "getMember (s\<lparr>members := updateMemberRows i d (members s)\<rparr>) j =
     (if j = i then map_option (setMemberData d) (getMember s i) else getMember s j)"
  unfolding getMember_def updateMemberRows_def by (simp add: find_map_upd)

lemma getMember_setMemberData:
  assumes "getMember s i = Some m"
  shows "getMember (s\<lparr>members := updateMemberRows i d (members s)\<rparr>) i = Some (setMemberData d m)"
  using assms by (simp add: getMember_updateMemberRows)

lemma getMember_members_cong: "members s' = members s \<Longrightarrow> getMember s' = getMember s"
  by (simp add: fun_eq_iff getMember_def)

lemma updateMember_found:
  assumes "getMember s i = Some m" and "memberDataAccepted d"
  shows "members (snd (updateMember now s i d)) = updateMemberRows i d (members s)"
    and "users (snd (updateMember now s i d)) = users s"
    and "membershipPlans (snd (updateMember now s i d)) = membershipPlans s"
    and "payments (snd (updateMember now s i d)) = payments s"
    and "map a_activityType (activities (snd (updateMember now s i d))) =
           map a_activityType (activities s) @ [''member_updated'']"
    and "\<exists>r. fst (updateMember now s i d) = Returned r"
  using assms
  by (simp_all add: updateMember_def Let_def getMember_updateMemberRows)

text \<open>What a verification does when payment, member, administrator and plan are all found.\<close>

lemma verifyPayment_found:
  assumes p: "getPayment s i = Some p"
    and m: "getMember s (p_memberId p) = Some m"
    and a: "getUser s adminId = Some a"
    and pl: "getMembershipPlan s (p_planId p) = Some plan"
    and t: "verifyExpiry tz plan (m_expiryDate m) now = Some t"
    and ok: "isoAccepted t"
  shows "fst (verifyPayment tz now s i adminId) = Returned (Some (markVerified adminId now p))"
    and "members (snd (verifyPayment tz now s i adminId)) =
           updateMemberRows (p_memberId p)
             \<lparr>md_status = Some ''active'', md_planId = Some (mp_id plan), md_expiryDate = Some t\<rparr>
             (members s)"
    and "payments (snd (verifyPayment tz now s i adminId)) =
           map (\<lambda>r. if p_id r = i then markVerified adminId now r else r) (payments s)"
    and "users (snd (verifyPayment tz now s i adminId)) = users s"
    and "membershipPlans (snd (verifyPayment tz now s i adminId)) = membershipPlans s"
    and "map a_activityType (newActivities s (snd (verifyPayment tz now s i adminId))) =
           [''payment_verified'', ''member_updated'', ''membership_activated'']"
proof -
  let ?s1 = "s\<lparr>payments := map (\<lambda>r. if p_id r = i then markVerified adminId now r else r) (payments s)\<rparr>"
  let ?d = "\<lparr>md_status = Some ''active'', md_planId = Some (mp_id plan), md_expiryDate = Some t\<rparr>"
  have mid: "m_id m = p_memberId p" using m by (rule getMember_id)
  have m1: "getMember ?s1 (p_memberId p) = Some m" using m by (simp add: getMember_def)
  have a1: "getUser ?s1 adminId = Some a" using a by (simp add: getUser_def)
  have pl1: "getMembershipPlan ?s1 (p_planId p) = Some plan" using pl by (simp add: getMembershipPlan_def)
  have up: "getPayment ?s1 i = Some (markVerified adminId now p)" using p by (simp add: getPayment_marked)
  have acc: "memberDataAccepted ?d" using ok by (simp add: memberDataAccepted_def)
  note defs = verifyPayment_def Let_def p m1 a a1 pl1 up t mid acc
  show "fst (verifyPayment tz now s i adminId) = Returned (Some (markVerified adminId now p))"
    by (simp add: defs updateMember_def getMember_updateMemberRows)
  show "members (snd (verifyPayment tz now s i adminId)) = updateMemberRows (p_memberId p) ?d (members s)"
    by (simp add: defs updateMember_def getMember_updateMemberRows)
  show "payments (snd (verifyPayment tz now s i adminId)) =
           map (\<lambda>r. if p_id r = i then markVerified adminId now r else r) (payments s)"
    by (simp add: defs updateMember_def getMember_updateMemberRows)
  show "users (snd (verifyPayment tz now s i adminId)) = users s"
    by (simp add: defs updateMember_def getMember_updateMemberRows)
  show "membershipPlans (snd (verifyPayment tz now s i adminId)) = membershipPlans s"
    by (simp add: defs updateMember_def getMember_updateMemberRows)
  show "map a_activityType (newActivities s (snd (verifyPayment tz now s i adminId))) =
           [''payment_verified'', ''member_updated'', ''membership_activated'']"
    by (simp add: defs updateMember_def getMember_updateMemberRows newActivities_types)
qed

text \<open>What \<^verbatim>\<open>createPayment\<close> does, case by case.\<close>

lemma newPaymentRow_simps [simp]:
  "p_memberId (newPaymentRow now k d) = ip_memberId d"
  "p_planId (newPaymentRow now k d) = ip_planId d"
  "p_status (newPaymentRow now k d) = resolveStatus (ip_status d)"
  "p_paymentDate (newPaymentRow now k d) = (case ip_paymentDate d of None \<Rightarrow> now | Some t \<Rightarrow> t)"
  by (simp_all add: newPaymentRow_def Let_def)

lemma insertAccepted_refs:
  assumes "insertAccepted now s d"
  shows "getMember s (ip_memberId d) \<noteq> None" and "getMembershipPlan s (ip_planId d) \<noteq> None"
  using assms by (simp_all add: insertAccepted_def paymentRefsHold_def)

lemma createPayment_refused:
  assumes "\<not> insertAccepted now s d"
  shows "fst (createPayment tz now s d) = Threw StoreFailure"
    and "payments (snd (createPayment tz now s d)) = payments s"
    and "members (snd (createPayment tz now s d)) = members s"
    and "activities (snd (createPayment tz now s d)) = activities s"
  using assms by (auto simp: createPayment_def insertAccepted_def Let_def)

lemma createPayment_payments:
  assumes "insertAccepted now s d"
  shows "payments (snd (createPayment tz now s d)) =
           payments s @ [newPaymentRow now (paymentIdCounter s) d]"
  using assms
  by (simp add: createPayment_def insertAccepted_def Let_def getMember_def getMembershipPlan_def
      split: option.splits prod.splits)

lemma createPayment_verified:
  assumes acc: "insertAccepted now s d"
    and st: "resolveStatus (ip_status d) = ''verified''"
    and m: "getMember s (ip_memberId d) = Some m"
    and pl: "getMembershipPlan s (ip_planId d) = Some plan"
    and t: "createExpiry tz plan (case ip_paymentDate d of None \<Rightarrow> now | Some t \<Rightarrow> t) = Some t"
    and ok: "isoAccepted t"
  shows "fst (createPayment tz now s d) = Returned (newPaymentRow now (paymentIdCounter s) d)"
    and "members (snd (createPayment tz now s d)) =
           updateMemberRows (ip_memberId d)
             \<lparr>md_status = Some ''active'', md_planId = Some (mp_id plan), md_expiryDate = Some t\<rparr>
             (members s)"
    and "map a_activityType (newActivities s (snd (createPayment tz now s d))) =
           [''payment_created'', ''membership_activated'']"
proof -
  let ?s1 = "s\<lparr>payments := payments s @ [newPaymentRow now (paymentIdCounter s) d],
               paymentIdCounter := paymentIdCounter s + 1\<rparr>"
  have mid: "m_id m = ip_memberId d" using m by (rule getMember_id)
  have m1: "getMember ?s1 (ip_memberId d) = Some m" using m by (simp add: getMember_def)
  have pl1: "getMembershipPlan ?s1 (ip_planId d) = Some plan"
    using pl by (simp add: getMembershipPlan_def)
  from acc have a1: "isoAccepted (case ip_paymentDate d of None \<Rightarrow> now | Some t \<Rightarrow> t)"
    and a2: "paymentRefsHold s (newPaymentRow now (paymentIdCounter s) d)"
    by (simp_all add: insertAccepted_def)
  note defs = createPayment_def Let_def st m1 pl1 t mid a1 a2 ok
  show "fst (createPayment tz now s d) = Returned (newPaymentRow now (paymentIdCounter s) d)"
    by (simp add: defs)
  show "members (snd (createPayment tz now s d)) =
           updateMemberRows (ip_memberId d)
             \<lparr>md_status = Some ''active'', md_planId = Some (mp_id plan), md_expiryDate = Some t\<rparr>
             (members s)"
    by (simp add: defs)
  show "map a_activityType (newActivities s (snd (createPayment tz now s d))) =
           [''payment_created'', ''membership_activated'']"
    by (simp add: defs newActivities_types)
qed

lemma createPayment_not_verified:
  assumes "resolveStatus (ip_status d) \<noteq> ''verified''"
  shows "members (snd (createPayment tz now s d)) = members s"
    and "''membership_activated'' \<notin>
           set (map a_activityType (newActivities s (snd (createPayment tz now s d))))"
    and "insertAccepted now s d \<Longrightarrow>
           fst (createPayment tz now s d) = Returned (newPaymentRow now (paymentIdCounter s) d)"
  using assms
  by (simp_all add: createPayment_def insertAccepted_def Let_def newActivities_types
      split: option.splits)

text \<open>What \<^verbatim>\<open>rejectPayment\<close> does to a payment that is there.\<close>

lemma getPayment_rejected:
  "getPayment (s\<lparr>payments := map (\<lambda>r. if p_id r = i then markRejected a n notes r else r) (payments s)\<rparr>) j =
     (if j = i then map_option (markRejected a n notes) (getPayment s i) else getPayment s j)"
  unfolding getPayment_def by (simp add: find_map_upd markRejected_def)

lemma rejectPayment_found:
  assumes p: "getPayment s i = Some p" and a: "getUser s adminId = Some a"
  shows "fst (rejectPayment now s i adminId notes) = Returned (Some (markRejected adminId now notes p))"
    and "payments (snd (rejectPayment now s i adminId notes)) =
           map (\<lambda>r. if p_id r = i then markRejected adminId now notes r else r) (payments s)"
    and "members (snd (rejectPayment now s i adminId notes)) = members s"
    and "users (snd (rejectPayment now s i adminId notes)) = users s"
    and "membershipPlans (snd (rejectPayment now s i adminId notes)) = membershipPlans s"
    and "map a_activityType (newActivities s (snd (rejectPayment now s i adminId notes))) =
           (if getMember s (p_memberId p) \<noteq> None then [''payment_rejected''] else [])"
  using p a
  by (auto simp: rejectPayment_def Let_def getPayment_rejected getMember_def getUser_def
      newActivities_types markRejected_def split: option.splits)


lemma verifyPayment_refused:
  assumes "getPayment s i = Some p" and "getUser s adminId = None"
  shows "verifyPayment tz now s i adminId = (Threw StoreFailure, s)"
  using assms by (simp add: verifyPayment_def)

section \<open>The extension algorithm\<close>

lemma verifyBaseDate_cases:
  "verifyBaseDate e now =
     (case e of None \<Rightarrow> Some now | Some x \<Rightarrow> if x < now then Some now else Some x)"
  by (simp add: verifyBaseDate_def dateLess_def Let_def split: option.splits)

text \<open>
  The calendar steps overflow into the following month: three months after 2024-01-31 is
  2024-05-01, one month after 2024-01-15 is 2024-02-15, and one year after the leap day
  2024-02-29 is 2025-03-01. In Lima, one month after 2024-01-31, 22:00 local time (the
  first of February, 03:00, in UTC) is the second of March, 22:00 local time.
\<close>

lemma calendar_examples:
  "addMonths zoneUTC (Some (daysFromCivil 2024 1 31 * msPerDay)) 3 =
     Some (daysFromCivil 2024 5 1 * msPerDay)"
  "addMonths zoneUTC (Some (daysFromCivil 2024 1 15 * msPerDay)) 1 =
     Some (daysFromCivil 2024 2 15 * msPerDay)"
  "addYears zoneUTC (Some (daysFromCivil 2024 2 29 * msPerDay)) 1 =
     Some (daysFromCivil 2025 3 1 * msPerDay)"
  "addMonths zoneLima (Some (daysFromCivil 2024 2 1 * msPerDay + 3 * 3600000)) 1 =
     Some (daysFromCivil 2024 3 3 * msPerDay + 3 * 3600000)"
  by code_simp+

text \<open>
  C1, as the code has it. When a payment is created as verified, the duration is the plan's
  duration if that is positive and 1 otherwise, and the base date advances by that many
  days for \<^verbatim>\<open>daily\<close>, seven times as many days for \<^verbatim>\<open>weekly\<close>, that many calendar months for
  \<^verbatim>\<open>monthly\<close> and that many calendar years for \<^verbatim>\<open>yearly\<close> and \<^verbatim>\<open>annual\<close>; every other type
  name, the older names \<^verbatim>\<open>day\<close>, \<^verbatim>\<open>week\<close>, \<^verbatim>\<open>month\<close> and \<^verbatim>\<open>year\<close> among them, advances it by
  that many days. On explicit verification a plan with a positive duration advances the
  base date by its duration in days for \<^verbatim>\<open>day\<close>, in weeks for \<^verbatim>\<open>week\<close>, in calendar months
  for \<^verbatim>\<open>month\<close> and in calendar years for \<^verbatim>\<open>year\<close>. This holds in every zone.
\<close>

theorem extension_duration_rule:
  "createDuration plan = (if mp_duration plan > 0 then mp_duration plan else 1) \<and>
   (mp_durationType plan = ''daily'' \<longrightarrow>
      createAddDuration tz plan b = addDays b (createDuration plan)) \<and>
   (mp_durationType plan = ''weekly'' \<longrightarrow>
      createAddDuration tz plan b = addDays b (createDuration plan * 7)) \<and>
   (mp_durationType plan = ''monthly'' \<longrightarrow>
      createAddDuration tz plan b = addMonths tz b (createDuration plan)) \<and>
   (mp_durationType plan = ''yearly'' \<or> mp_durationType plan = ''annual'' \<longrightarrow>
      createAddDuration tz plan b = addYears tz b (createDuration plan)) \<and>
   (mp_durationType plan \<notin> {''daily'', ''weekly'', ''monthly'', ''yearly'', ''annual''} \<longrightarrow>
      createAddDuration tz plan b = addDays b (createDuration plan)) \<and>
   (0 < mp_duration plan \<and> mp_durationType plan = ''day'' \<longrightarrow>
      verifyAddDuration tz plan b = addDays b (mp_duration plan)) \<and>
   (0 < mp_duration plan \<and> mp_durationType plan = ''week'' \<longrightarrow>
      verifyAddDuration tz plan b = addDays b (mp_duration plan * 7)) \<and>
   (0 < mp_duration plan \<and> mp_durationType plan = ''month'' \<longrightarrow>
      verifyAddDuration tz plan b = addMonths tz b (mp_duration plan)) \<and>
   (0 < mp_duration plan \<and> mp_durationType plan = ''year'' \<longrightarrow>
      verifyAddDuration tz plan b = addYears tz b (mp_duration plan))"
  by (simp add: createDuration_def createAddDuration_def verifyAddDuration_def Let_def)

theorem extension_duration_rule_witness:
  "createAddDuration zoneUTC planMensual (Some 1706695200000) = Some 1709373600000 \<and>
   createAddDuration zoneUTC planQuincena (Some 1706695200000) = Some 1706868000000 \<and>
   verifyAddDuration zoneUTC planQuincena (Some 1706695200000) = Some 1707904800000"
proof -
  have m: "mp_durationType planMensual = ''monthly''" by code_simp
  have q: "mp_durationType planQuincena \<notin> {''daily'', ''weekly'', ''monthly'', ''yearly'', ''annual''}"
    by code_simp
  have w: "0 < mp_duration planQuincena \<and> mp_durationType planQuincena = ''week''" by code_simp
  have "createAddDuration zoneUTC planMensual (Some 1706695200000) =
      addMonths zoneUTC (Some 1706695200000) (createDuration planMensual)"
    using extension_duration_rule [of planMensual zoneUTC "Some 1706695200000"] m by blast
  also have "\<dots> = Some 1709373600000" by code_simp
  finally have 1: "createAddDuration zoneUTC planMensual (Some 1706695200000) = Some 1709373600000" .
  have "createAddDuration zoneUTC planQuincena (Some 1706695200000) =
      addDays (Some 1706695200000) (createDuration planQuincena)"
    using extension_duration_rule [of planQuincena zoneUTC "Some 1706695200000"] q by blast
  also have "\<dots> = Some 1706868000000" by code_simp
  finally have 2: "createAddDuration zoneUTC planQuincena (Some 1706695200000) = Some 1706868000000" .
  have "verifyAddDuration zoneUTC planQuincena (Some 1706695200000) =
      addDays (Some 1706695200000) (mp_duration planQuincena * 7)"
    using extension_duration_rule [of planQuincena zoneUTC "Some 1706695200000"] w by blast
  also have "\<dots> = Some 1707904800000" by code_simp
  finally have 3: "verifyAddDuration zoneUTC planQuincena (Some 1706695200000) = Some 1707904800000" .
  from 1 2 3 show ?thesis by (intro conjI)
qed

text \<open>
  C1 as the specification words it does not hold: on creation the type \<^verbatim>\<open>week\<close> is not one
  of the recognised names, so a two-week plan advances the date by two days, not fourteen;
  on verification \<^verbatim>\<open>monthly\<close> is not recognised and the date does not move at all.
\<close>

theorem legacy_type_names_counterexample:
  "createAddDuration zoneUTC planQuincena (Some demoNow) = addDays (Some demoNow) 2 \<and>
   createAddDuration zoneUTC planQuincena (Some demoNow) \<noteq> addDays (Some demoNow) (2 * 7) \<and>
   verifyAddDuration zoneUTC planMensual (Some demoNow) = Some demoNow \<and>
   verifyAddDuration zoneUTC planMensual (Some demoNow) \<noteq> addMonths zoneUTC (Some demoNow) 1"
  by code_simp

text \<open>
  C2. The two call sites differ. On explicit verification the extension starts from the
  member's expiry date if there is one and it is not before the current instant, and from
  the current instant otherwise, and nothing is added after the plan's duration. When a
  payment is created as verified the extension starts from the payment's date whatever
  the member's row holds, and one more day is added after the plan's duration. In both
  cases the members table keeps the calendar day of the computed date. The statement is
  of the calls the database does not refuse: the verifier is a user, the new payment has
  its member, its plan and its verifier, and the dates written are dates it reads.
\<close>

theorem base_date_and_padding:
  "(getPayment s i = Some p \<and> getMember s (p_memberId p) = Some m \<and>
    getUser s adminId = Some a \<and> getMembershipPlan s (p_planId p) = Some plan \<and>
    verifyAddDuration tz plan
      (case m_expiryDate m of None \<Rightarrow> Some now
       | Some e \<Rightarrow> if e < now then Some now else Some e) = Some t \<and> isoAccepted t
    \<longrightarrow> map_option m_expiryDate (getMember (snd (verifyPayment tz now s i adminId)) (p_memberId p)) =
          Some (Some (dateColumn t))) \<and>
   (resolveStatus (ip_status d) = ''verified'' \<and> getMember s (ip_memberId d) = Some m' \<and>
    getMembershipPlan s (ip_planId d) = Some plan' \<and> insertAccepted now s d \<and>
    addDays (createAddDuration tz plan' (Some (case ip_paymentDate d of None \<Rightarrow> now | Some x \<Rightarrow> x))) 1
      = Some t' \<and> isoAccepted t'
    \<longrightarrow> map_option m_expiryDate (getMember (snd (createPayment tz now s d)) (ip_memberId d)) =
          Some (Some (dateColumn t')))"
proof (intro conjI impI; elim conjE)
  assume p: "getPayment s i = Some p" and m: "getMember s (p_memberId p) = Some m"
    and a: "getUser s adminId = Some a" and pl: "getMembershipPlan s (p_planId p) = Some plan"
    and t: "verifyAddDuration tz plan
      (case m_expiryDate m of None \<Rightarrow> Some now
       | Some e \<Rightarrow> if e < now then Some now else Some e) = Some t"
    and ok: "isoAccepted t"
  from t have t': "verifyExpiry tz plan (m_expiryDate m) now = Some t"
    by (simp add: verifyExpiry_def verifyBaseDate_cases)
  have "getMember (snd (verifyPayment tz now s i adminId)) =
      getMember (s\<lparr>members := updateMemberRows (p_memberId p)
          \<lparr>md_status = Some ''active'', md_planId = Some (mp_id plan), md_expiryDate = Some t\<rparr>
          (members s)\<rparr>)"
    by (rule getMember_members_cong) (simp add: verifyPayment_found(2) [OF p m a pl t' ok])
  then show "map_option m_expiryDate (getMember (snd (verifyPayment tz now s i adminId)) (p_memberId p)) =
      Some (Some (dateColumn t))"
    by (simp add: getMember_setMemberData [OF m] setMemberData_def)
next
  assume st: "resolveStatus (ip_status d) = ''verified''"
    and m: "getMember s (ip_memberId d) = Some m'"
    and pl: "getMembershipPlan s (ip_planId d) = Some plan'"
    and acc: "insertAccepted now s d"
    and t: "addDays (createAddDuration tz plan' (Some (case ip_paymentDate d of None \<Rightarrow> now | Some x \<Rightarrow> x))) 1
      = Some t'"
    and ok: "isoAccepted t'"
  from t have t2: "createExpiry tz plan' (case ip_paymentDate d of None \<Rightarrow> now | Some t \<Rightarrow> t) = Some t'"
    by (simp add: createExpiry_def)
  have "getMember (snd (createPayment tz now s d)) =
      getMember (s\<lparr>members := updateMemberRows (ip_memberId d)
          \<lparr>md_status = Some ''active'', md_planId = Some (mp_id plan'), md_expiryDate = Some t'\<rparr>
          (members s)\<rparr>)"
    by (rule getMember_members_cong) (simp add: createPayment_verified(2) [OF acc st m pl t2 ok])
  then show "map_option m_expiryDate (getMember (snd (createPayment tz now s d)) (ip_memberId d)) =
      Some (Some (dateColumn t'))"
    by (simp add: getMember_setMemberData [OF m] setMemberData_def)
qed

theorem base_date_and_padding_witness:
  "map_option m_expiryDate (getMember (snd (verifyPayment zoneUTC demoNow demoStore 2 1)) 1) =
     Some (Some 1707868800000) \<and>
   map_option m_expiryDate
     (getMember (snd (createPayment zoneUTC demoNow demoStore (demoInsert 1 1 None))) 1) =
     Some (Some 1708041600000)"
proof -
  have v: "getPayment demoStore 2 = Some paymentTwo \<and>
      getMember demoStore (p_memberId paymentTwo) = Some memberAna \<and>
      getUser demoStore 1 = Some demoAdmin \<and>
      getMembershipPlan demoStore (p_planId paymentTwo) = Some planPase \<and>
      verifyAddDuration zoneUTC planPase
        (case m_expiryDate memberAna of None \<Rightarrow> Some demoNow
         | Some e \<Rightarrow> if e < demoNow then Some demoNow else Some e) = Some 1707904800000 \<and>
      isoAccepted 1707904800000"
    by code_simp
  have c: "resolveStatus (ip_status (demoInsert 1 1 None)) = ''verified'' \<and>
      getMember demoStore (ip_memberId (demoInsert 1 1 None)) = Some memberAna \<and>
      getMembershipPlan demoStore (ip_planId (demoInsert 1 1 None)) = Some planMensual \<and>
      insertAccepted demoNow demoStore (demoInsert 1 1 None) \<and>
      addDays (createAddDuration zoneUTC planMensual
        (Some (case ip_paymentDate (demoInsert 1 1 None) of None \<Rightarrow> demoNow | Some x \<Rightarrow> x))) 1
        = Some 1708077600000 \<and>
      isoAccepted 1708077600000"
    by code_simp
  have ids: "p_memberId paymentTwo = 1" "ip_memberId (demoInsert 1 1 None) = 1"
      "dateColumn 1707904800000 = 1707868800000" "dateColumn 1708077600000 = 1708041600000"
    by code_simp+
  note inst = base_date_and_padding [of demoStore 2 paymentTwo memberAna 1 demoAdmin planPase
      zoneUTC demoNow 1707904800000 "demoInsert 1 1 None" memberAna planMensual 1708077600000]
  from inst [THEN conjunct1, THEN mp, OF v] inst [THEN conjunct2, THEN mp, OF c]
  show ?thesis unfolding ids by (intro conjI)
qed

section \<open>Creating a payment\<close>

lemma createPayment_range_error:
  assumes acc: "insertAccepted now s d"
    and st: "resolveStatus (ip_status d) = ''verified''"
    and m: "getMember s (ip_memberId d) = Some m"
    and pl: "getMembershipPlan s (ip_planId d) = Some plan"
    and t: "createExpiry tz plan (case ip_paymentDate d of None \<Rightarrow> now | Some t \<Rightarrow> t) = None"
  shows "fst (createPayment tz now s d) = Threw RangeError"
    and "members (snd (createPayment tz now s d)) = members s"
    and "map a_activityType (newActivities s (snd (createPayment tz now s d))) =
           [''payment_created'']"
proof -
  let ?s1 = "s\<lparr>payments := payments s @ [newPaymentRow now (paymentIdCounter s) d],
               paymentIdCounter := paymentIdCounter s + 1\<rparr>"
  have m1: "getMember ?s1 (ip_memberId d) = Some m" using m by (simp add: getMember_def)
  have pl1: "getMembershipPlan ?s1 (ip_planId d) = Some plan"
    using pl by (simp add: getMembershipPlan_def)
  from acc have a1: "isoAccepted (case ip_paymentDate d of None \<Rightarrow> now | Some t \<Rightarrow> t)"
    and a2: "paymentRefsHold s (newPaymentRow now (paymentIdCounter s) d)"
    by (simp_all add: insertAccepted_def)
  note defs = createPayment_def Let_def st m1 pl1 t a1 a2
  show "fst (createPayment tz now s d) = Threw RangeError" by (simp add: defs)
  show "members (snd (createPayment tz now s d)) = members s" by (simp add: defs)
  show "map a_activityType (newActivities s (snd (createPayment tz now s d))) =
           [''payment_created'']"
    by (simp add: defs newActivities_types)
qed

text \<open>
  C3, as the code has it. The statement is of the inserts the database does not refuse
  (the new payment has its member, its plan and its verifier, and its date is one the
  database reads). Such a payment created without a status is stored with the status
  \<^verbatim>\<open>verified\<close>. If moreover the computed expiry is a date the platform can represent and
  the database reads, the extension runs: the member becomes active with the plan's id and
  the computed expiry day, and the entries \<^verbatim>\<open>payment_created\<close> and \<^verbatim>\<open>membership_activated\<close>
  are appended. A payment created with the status \<^verbatim>\<open>pending\<close> is stored as pending when the
  insert is not refused, and in every case the members table is left as it was and no
  \<^verbatim>\<open>membership_activated\<close> entry is appended.
\<close>

theorem createPayment_default_status:
  "(ip_status d = None \<and> insertAccepted now s d \<longrightarrow>
      payments (snd (createPayment tz now s d)) =
        payments s @ [newPaymentRow now (paymentIdCounter s) d] \<and>
      p_status (newPaymentRow now (paymentIdCounter s) d) = ''verified'') \<and>
   (ip_status d = None \<and> insertAccepted now s d \<and> getMember s (ip_memberId d) = Some m \<and>
    getMembershipPlan s (ip_planId d) = Some plan \<and>
    createExpiry tz plan (case ip_paymentDate d of None \<Rightarrow> now | Some x \<Rightarrow> x) = Some t \<and>
    isoAccepted t \<longrightarrow>
      fst (createPayment tz now s d) = Returned (newPaymentRow now (paymentIdCounter s) d) \<and>
      getMember (snd (createPayment tz now s d)) (ip_memberId d) =
        Some (m\<lparr>m_status := Some ''active'', m_planId := Some (mp_id plan),
                m_expiryDate := Some (dateColumn t)\<rparr>) \<and>
      map a_activityType (newActivities s (snd (createPayment tz now s d))) =
        [''payment_created'', ''membership_activated'']) \<and>
   (ip_status d = Some ''pending'' \<longrightarrow>
      members (snd (createPayment tz now s d)) = members s \<and>
      ''membership_activated'' \<notin>
        set (map a_activityType (newActivities s (snd (createPayment tz now s d))))) \<and>
   (ip_status d = Some ''pending'' \<and> insertAccepted now s d \<longrightarrow>
      fst (createPayment tz now s d) = Returned (newPaymentRow now (paymentIdCounter s) d) \<and>
      p_status (newPaymentRow now (paymentIdCounter s) d) = ''pending'' \<and>
      payments (snd (createPayment tz now s d)) =
        payments s @ [newPaymentRow now (paymentIdCounter s) d])"
proof -
  have 1: "payments (snd (createPayment tz now s d)) =
        payments s @ [newPaymentRow now (paymentIdCounter s) d] \<and>
      p_status (newPaymentRow now (paymentIdCounter s) d) = ''verified''"
    if "ip_status d = None" "insertAccepted now s d"
    using that by (simp add: createPayment_payments resolveStatus_def)
  have 2: "fst (createPayment tz now s d) = Returned (newPaymentRow now (paymentIdCounter s) d) \<and>
      getMember (snd (createPayment tz now s d)) (ip_memberId d) =
        Some (m\<lparr>m_status := Some ''active'', m_planId := Some (mp_id plan),
                m_expiryDate := Some (dateColumn t)\<rparr>) \<and>
      map a_activityType (newActivities s (snd (createPayment tz now s d))) =
        [''payment_created'', ''membership_activated'']"
    if st: "ip_status d = None" and acc: "insertAccepted now s d"
      and m: "getMember s (ip_memberId d) = Some m"
      and pl: "getMembershipPlan s (ip_planId d) = Some plan"
      and t: "createExpiry tz plan (case ip_paymentDate d of None \<Rightarrow> now | Some x \<Rightarrow> x) = Some t"
      and ok: "isoAccepted t"
  proof -
    from st have v: "resolveStatus (ip_status d) = ''verified''" by (simp add: resolveStatus_def)
    note found = createPayment_verified [OF acc v m pl t ok]
    have "getMember (snd (createPayment tz now s d)) =
        getMember (s\<lparr>members := updateMemberRows (ip_memberId d)
            \<lparr>md_status = Some ''active'', md_planId = Some (mp_id plan), md_expiryDate = Some t\<rparr>
            (members s)\<rparr>)"
      by (rule getMember_members_cong) (simp add: found(2))
    then have "getMember (snd (createPayment tz now s d)) (ip_memberId d) =
          Some (m\<lparr>m_status := Some ''active'', m_planId := Some (mp_id plan),
                  m_expiryDate := Some (dateColumn t)\<rparr>)"
      by (simp add: getMember_setMemberData [OF m] setMemberData_def)
    with found(1) found(3) show ?thesis by (intro conjI)
  qed
  have 3: "members (snd (createPayment tz now s d)) = members s \<and>
      ''membership_activated'' \<notin>
        set (map a_activityType (newActivities s (snd (createPayment tz now s d))))"
    if "ip_status d = Some ''pending''"
  proof -
    from that have nv: "resolveStatus (ip_status d) \<noteq> ''verified''" by (simp add: resolveStatus_def)
    from createPayment_not_verified(1,2) [OF nv] show ?thesis by (intro conjI)
  qed
  have 4: "fst (createPayment tz now s d) = Returned (newPaymentRow now (paymentIdCounter s) d) \<and>
      p_status (newPaymentRow now (paymentIdCounter s) d) = ''pending'' \<and>
      payments (snd (createPayment tz now s d)) =
        payments s @ [newPaymentRow now (paymentIdCounter s) d]"
    if st: "ip_status d = Some ''pending''" and acc: "insertAccepted now s d"
  proof -
    from st have nv: "resolveStatus (ip_status d) \<noteq> ''verified''" by (simp add: resolveStatus_def)
    from createPayment_not_verified(3) [OF nv acc] createPayment_payments [OF acc] st
    show ?thesis by (simp add: resolveStatus_def)
  qed
  from 1 2 3 4 show ?thesis by blast
qed

theorem createPayment_default_status_witness:
  "p_status (newPaymentRow demoNow 3 (demoInsert 1 1 None)) = ''verified'' \<and>
   map_option m_status
     (getMember (snd (createPayment zoneUTC demoNow demoStore (demoInsert 1 1 None))) 1) =
     Some (Some ''active'') \<and>
   map a_activityType
     (newActivities demoStore (snd (createPayment zoneUTC demoNow demoStore (demoInsert 1 1 None)))) =
     [''payment_created'', ''membership_activated''] \<and>
   members (snd (createPayment zoneUTC demoNow demoStore (demoInsert 1 1 (Some ''pending'')))) =
     members demoStore \<and>
   p_status (newPaymentRow demoNow 3 (demoInsert 1 1 (Some ''pending''))) = ''pending''"
proof -
  have a: "ip_status (demoInsert 1 1 None) = None \<and>
      insertAccepted demoNow demoStore (demoInsert 1 1 None)" by code_simp
  have b: "ip_status (demoInsert 1 1 None) = None \<and>
      insertAccepted demoNow demoStore (demoInsert 1 1 None) \<and>
      getMember demoStore (ip_memberId (demoInsert 1 1 None)) = Some memberAna \<and>
      getMembershipPlan demoStore (ip_planId (demoInsert 1 1 None)) = Some planMensual \<and>
      createExpiry zoneUTC planMensual
        (case ip_paymentDate (demoInsert 1 1 None) of None \<Rightarrow> demoNow | Some x \<Rightarrow> x) =
        Some 1708077600000 \<and>
      isoAccepted 1708077600000"
    by code_simp
  have c: "ip_status (demoInsert 1 1 (Some ''pending'')) = Some ''pending''" by code_simp
  have c': "ip_status (demoInsert 1 1 (Some ''pending'')) = Some ''pending'' \<and>
      insertAccepted demoNow demoStore (demoInsert 1 1 (Some ''pending''))" by code_simp
  have ids: "paymentIdCounter demoStore = 3" "ip_memberId (demoInsert 1 1 None) = 1" by code_simp+
  note v = createPayment_default_status [of "demoInsert 1 1 None" demoNow demoStore zoneUTC
      memberAna planMensual 1708077600000]
  note q = createPayment_default_status [of "demoInsert 1 1 (Some ''pending'')" demoNow demoStore
      zoneUTC memberAna planMensual 1708077600000]
  note v1 = v [THEN conjunct1, THEN mp, OF a]
  note v2 = v [THEN conjunct2, THEN conjunct1, THEN mp, OF b]
  note q3 = q [THEN conjunct2, THEN conjunct2, THEN conjunct1, THEN mp, OF c]
  note q4 = q [THEN conjunct2, THEN conjunct2, THEN conjunct2, THEN mp, OF c']
  have 1: "p_status (newPaymentRow demoNow 3 (demoInsert 1 1 None)) = ''verified''"
    using v1 [THEN conjunct2] unfolding ids .
  have 2: "map_option m_status
      (getMember (snd (createPayment zoneUTC demoNow demoStore (demoInsert 1 1 None))) 1) =
      Some (Some ''active'')"
    using v2 [THEN conjunct2, THEN conjunct1] unfolding ids by simp
  have 3: "map a_activityType
     (newActivities demoStore (snd (createPayment zoneUTC demoNow demoStore (demoInsert 1 1 None)))) =
     [''payment_created'', ''membership_activated'']"
    using v2 [THEN conjunct2, THEN conjunct2] .
  have 4: "members (snd (createPayment zoneUTC demoNow demoStore (demoInsert 1 1 (Some ''pending'')))) =
     members demoStore"
    using q3 [THEN conjunct1] .
  have 5: "p_status (newPaymentRow demoNow 3 (demoInsert 1 1 (Some ''pending''))) = ''pending''"
    using q4 [THEN conjunct2, THEN conjunct1] unfolding ids .
  from 1 2 3 4 5 show ?thesis by (intro conjI)
qed

text \<open>
  C3 as the specification words it, for every call with the status omitted, does not hold.
  A payment without a status for the daily plan whose duration is the largest the column
  holds is stored as verified and \<^verbatim>\<open>payment_created\<close> is written; the expiry then falls
  outside the dates of the platform, \<^verbatim>\<open>toISOString\<close> raises, and the call ends in that
  error with no member touched and no \<^verbatim>\<open>membership_activated\<close> entry written.
\<close>

theorem createPayment_extension_fails_counterexample:
  "ip_status (demoInsert 1 4 None) = None \<and>
   insertAccepted demoNow demoStore (demoInsert 1 4 None) \<and>
   getMember demoStore 1 = Some memberAna \<and>
   getMembershipPlan demoStore 4 = Some planVitalicio \<and>
   fst (createPayment zoneUTC demoNow demoStore (demoInsert 1 4 None)) = Threw RangeError \<and>
   payments (snd (createPayment zoneUTC demoNow demoStore (demoInsert 1 4 None))) =
     payments demoStore @ [newPaymentRow demoNow 3 (demoInsert 1 4 None)] \<and>
   p_status (newPaymentRow demoNow 3 (demoInsert 1 4 None)) = ''verified'' \<and>
   members (snd (createPayment zoneUTC demoNow demoStore (demoInsert 1 4 None))) =
     members demoStore \<and>
   map a_activityType
     (newActivities demoStore (snd (createPayment zoneUTC demoNow demoStore (demoInsert 1 4 None)))) =
     [''payment_created'']"
proof -
  have acc: "insertAccepted demoNow demoStore (demoInsert 1 4 None)" by code_simp
  have st: "resolveStatus (ip_status (demoInsert 1 4 None)) = ''verified''" by code_simp
  have m: "getMember demoStore (ip_memberId (demoInsert 1 4 None)) = Some memberAna" by code_simp
  have pl: "getMembershipPlan demoStore (ip_planId (demoInsert 1 4 None)) = Some planVitalicio"
    by code_simp
  have t: "createExpiry zoneUTC planVitalicio
      (case ip_paymentDate (demoInsert 1 4 None) of None \<Rightarrow> demoNow | Some t \<Rightarrow> t) = None"
    by code_simp
  have ids: "paymentIdCounter demoStore = 3" by code_simp
  have 0: "ip_status (demoInsert 1 4 None) = None \<and> getMember demoStore 1 = Some memberAna \<and>
      getMembershipPlan demoStore 4 = Some planVitalicio \<and>
      p_status (newPaymentRow demoNow 3 (demoInsert 1 4 None)) = ''verified''"
    by code_simp
  note r = createPayment_range_error [OF acc st m pl t]
  note p = createPayment_payments [OF acc, of zoneUTC, unfolded ids]
  from 0 acc r p show ?thesis by blast
qed

section \<open>Verifying a payment\<close>

text \<open>The rows of the payment and of the member after a verification that found them.\<close>

lemma verifyPayment_found_rows:
  assumes p: "getPayment s i = Some p"
    and m: "getMember s (p_memberId p) = Some m"
    and a: "getUser s adminId = Some a"
    and pl: "getMembershipPlan s (p_planId p) = Some plan"
    and t: "verifyExpiry tz plan (m_expiryDate m) now = Some t"
    and ok: "isoAccepted t"
  shows "getPayment (snd (verifyPayment tz now s i adminId)) i = Some (markVerified adminId now p)"
    and "getMember (snd (verifyPayment tz now s i adminId)) (p_memberId p) =
           Some (m\<lparr>m_status := Some ''active'', m_planId := Some (mp_id plan),
                   m_expiryDate := Some (dateColumn t)\<rparr>)"
    and "getUser (snd (verifyPayment tz now s i adminId)) adminId = Some a"
    and "getMembershipPlan (snd (verifyPayment tz now s i adminId)) (p_planId p) = Some plan"
proof -
  note found = verifyPayment_found [OF p m a pl t ok]
  show "getPayment (snd (verifyPayment tz now s i adminId)) i = Some (markVerified adminId now p)"
    using p by (simp add: getPayment_def found(3) find_map_upd markVerified_def)
  have "getMember (snd (verifyPayment tz now s i adminId)) =
      getMember (s\<lparr>members := updateMemberRows (p_memberId p)
        \<lparr>md_status = Some ''active'', md_planId = Some (mp_id plan), md_expiryDate = Some t\<rparr>
        (members s)\<rparr>)"
    by (rule getMember_members_cong) (simp add: found(2))
  then show "getMember (snd (verifyPayment tz now s i adminId)) (p_memberId p) =
           Some (m\<lparr>m_status := Some ''active'', m_planId := Some (mp_id plan),
                   m_expiryDate := Some (dateColumn t)\<rparr>)"
    by (simp add: getMember_setMemberData [OF m] setMemberData_def)
  show "getUser (snd (verifyPayment tz now s i adminId)) adminId = Some a"
    using a by (simp add: getUser_def found(4))
  show "getMembershipPlan (snd (verifyPayment tz now s i adminId)) (p_planId p) = Some plan"
    using pl by (simp add: getMembershipPlan_def found(5))
qed

text \<open>
  A verification whose administrator is a user marks the payment and writes the
  \<^verbatim>\<open>payment_verified\<close> entry before anything can fail.
\<close>

lemma verifyPayment_attempted:
  assumes p: "getPayment s i = Some p"
    and m: "getMember s (p_memberId p) = Some m"
    and a: "getUser s adminId = Some a"
    and pl: "getMembershipPlan s (p_planId p) = Some plan"
  shows "getPayment (snd (verifyPayment tz now s i adminId)) i = Some (markVerified adminId now p)"
    and "take 1 (map a_activityType (newActivities s (snd (verifyPayment tz now s i adminId)))) =
           [''payment_verified'']"
proof -
  let ?s1 = "s\<lparr>payments := map (\<lambda>r. if p_id r = i then markVerified adminId now r else r) (payments s)\<rparr>"
  have mid: "m_id m = p_memberId p" using m by (rule getMember_id)
  have m1: "getMember ?s1 (p_memberId p) = Some m" using m by (simp add: getMember_def)
  have a1: "getUser ?s1 adminId = Some a" using a by (simp add: getUser_def)
  have pl1: "getMembershipPlan ?s1 (p_planId p) = Some plan" using pl by (simp add: getMembershipPlan_def)
  have up: "getPayment ?s1 i = Some (markVerified adminId now p)" using p by (simp add: getPayment_marked)
  have gp: "getPayment (s'\<lparr>members := ms\<rparr>) = getPayment s'" for s' :: "payment storage" and ms
    by (simp add: fun_eq_iff getPayment_def)
  note defs = verifyPayment_def Let_def p m1 a a1 pl1 up mid
  show "getPayment (snd (verifyPayment tz now s i adminId)) i = Some (markVerified adminId now p)"
    by (simp add: defs updateMember_def getMember_updateMemberRows gp split: option.splits)
  show "take 1 (map a_activityType (newActivities s (snd (verifyPayment tz now s i adminId)))) =
           [''payment_verified'']"
    by (simp add: defs updateMember_def getMember_updateMemberRows newActivities_types
        split: option.splits)
qed

text \<open>
  C4 asks that the member's expiry after any verified payment lie strictly after the base
  date of the computation, whatever the plan. Run on a pending payment for the monthly
  plan, named \<^verbatim>\<open>monthly\<close> as the seeded plans are, \<^verbatim>\<open>verifyPayment\<close> finds no arm for that
  name in its switch: the base date, the current instant, is not advanced, the member is
  set active, and the stored expiry is today's midnight, which is not after the base date.
\<close>

theorem verify_monthly_plan_not_extended:
  "getPayment demoStore 1 = Some paymentOne \<and>
   getMembershipPlan demoStore (p_planId paymentOne) = Some planMensual \<and>
   mp_durationType planMensual = ''monthly'' \<and> mp_duration planMensual = 1 \<and>
   verifyBaseDate (m_expiryDate memberAna) demoNow = Some demoNow \<and>
   verifyExpiry zoneUTC planMensual (m_expiryDate memberAna) demoNow = Some demoNow \<and>
   fst (verifyPayment zoneUTC demoNow demoStore 1 1) =
     Returned (Some (markVerified 1 demoNow paymentOne)) \<and>
   map_option m_status (getMember (snd (verifyPayment zoneUTC demoNow demoStore 1 1)) 1) =
     Some (Some ''active'') \<and>
   map_option m_expiryDate (getMember (snd (verifyPayment zoneUTC demoNow demoStore 1 1)) 1) =
     Some (Some 1705276800000) \<and>
   \<not> demoNow < 1705276800000"
proof -
  have p: "getPayment demoStore 1 = Some paymentOne" by code_simp
  have m: "getMember demoStore (p_memberId paymentOne) = Some memberAna" by code_simp
  have a: "getUser demoStore 1 = Some demoAdmin" by code_simp
  have pl: "getMembershipPlan demoStore (p_planId paymentOne) = Some planMensual" by code_simp
  have t: "verifyExpiry zoneUTC planMensual (m_expiryDate memberAna) demoNow = Some demoNow"
    by code_simp
  have ok: "isoAccepted demoNow" by code_simp
  have ev: "p_memberId paymentOne = 1" "dateColumn demoNow = 1705276800000" by code_simp+
  have 0: "mp_durationType planMensual = ''monthly'' \<and> mp_duration planMensual = 1 \<and>
      verifyBaseDate (m_expiryDate memberAna) demoNow = Some demoNow \<and>
      \<not> demoNow < 1705276800000"
    by code_simp
  note r = verifyPayment_found(1) [OF p m a pl t ok]
  note row = verifyPayment_found_rows(2) [OF p m a pl t ok, unfolded ev]
  have 1: "map_option m_status (getMember (snd (verifyPayment zoneUTC demoNow demoStore 1 1)) 1) =
      Some (Some ''active'')"
    by (simp add: row)
  have 2: "map_option m_expiryDate (getMember (snd (verifyPayment zoneUTC demoNow demoStore 1 1)) 1) =
      Some (Some 1705276800000)"
    by (simp add: row)
  from p pl t r 0 1 2 show ?thesis by blast
qed

lemma dateColumn_add_days: "dateColumn (dateColumn t + n * msPerDay) = dateColumn t + n * msPerDay"
  unfolding dateColumn_def dayOf_def msPerDay_def by simp

lemma verifyExpiry_stacks:
  assumes "\<not> e < now"
  shows "verifyExpiry tz plan (Some e) now = verifyAddDuration tz plan (Some e)"
  using assms by (simp add: verifyExpiry_def verifyBaseDate_cases)

lemma verifyExpiry_day_stacks:
  assumes "mp_durationType plan = ''day''" and "\<not> e < now"
    and "verifyExpiry tz plan (Some e) now = Some t"
  shows "t = e + mp_duration plan * msPerDay"
  using assms
  by (simp add: verifyExpiry_def verifyBaseDate_cases verifyAddDuration_def addDays_def
      timeClip_def split: if_splits)

lemma verifyExpiry_week_stacks:
  assumes "mp_durationType plan = ''week''" and "\<not> e < now"
    and "verifyExpiry tz plan (Some e) now = Some t"
  shows "t = e + mp_duration plan * 7 * msPerDay"
  using assms
  by (simp add: verifyExpiry_def verifyBaseDate_cases verifyAddDuration_def addDays_def
      timeClip_def split: if_splits)

text \<open>Two verifications of the same payment, one after the other.\<close>

lemma verifyPayment_again:
  assumes p: "getPayment s i = Some p"
    and m: "getMember s (p_memberId p) = Some m"
    and a: "getUser s adminId = Some a"
    and pl: "getMembershipPlan s (p_planId p) = Some plan"
    and t1: "verifyExpiry tz plan (m_expiryDate m) now1 = Some t1"
    and ok1: "isoAccepted t1"
    and t2: "verifyExpiry tz plan (Some (dateColumn t1)) now2 = Some t2"
    and ok2: "isoAccepted t2"
  shows "fst (verifyPayment tz now2 (snd (verifyPayment tz now1 s i adminId)) i adminId) =
           Returned (Some (markVerified adminId now2 (markVerified adminId now1 p)))"
    and "getMember (snd (verifyPayment tz now2 (snd (verifyPayment tz now1 s i adminId)) i adminId))
           (p_memberId p) =
           Some (m\<lparr>m_status := Some ''active'', m_planId := Some (mp_id plan),
                   m_expiryDate := Some (dateColumn t2)\<rparr>)"
    and "map a_activityType
           (newActivities (snd (verifyPayment tz now1 s i adminId))
              (snd (verifyPayment tz now2 (snd (verifyPayment tz now1 s i adminId)) i adminId))) =
           [''payment_verified'', ''member_updated'', ''membership_activated'']"
    and "members (snd (verifyPayment tz now2 (snd (verifyPayment tz now1 s i adminId)) i adminId)) =
           updateMemberRows (p_memberId p)
             \<lparr>md_status = Some ''active'', md_planId = Some (mp_id plan), md_expiryDate = Some t2\<rparr>
             (updateMemberRows (p_memberId p)
                \<lparr>md_status = Some ''active'', md_planId = Some (mp_id plan), md_expiryDate = Some t1\<rparr>
                (members s))"
proof -
  let ?s1 = "snd (verifyPayment tz now1 s i adminId)"
  let ?m1 = "m\<lparr>m_status := Some ''active'', m_planId := Some (mp_id plan),
               m_expiryDate := Some (dateColumn t1)\<rparr>"
  note first = verifyPayment_found [OF p m a pl t1 ok1]
  note rows = verifyPayment_found_rows [OF p m a pl t1 ok1]
  have p1: "getPayment ?s1 i = Some (markVerified adminId now1 p)" by (rule rows(1))
  have m1: "getMember ?s1 (p_memberId (markVerified adminId now1 p)) = Some ?m1"
    using rows(2) by (simp add: markVerified_def)
  have a1: "getUser ?s1 adminId = Some a" by (rule rows(3))
  have pl1: "getMembershipPlan ?s1 (p_planId (markVerified adminId now1 p)) = Some plan"
    using rows(4) by (simp add: markVerified_def)
  have t2': "verifyExpiry tz plan (m_expiryDate ?m1) now2 = Some t2" using t2 by simp
  note second = verifyPayment_found [OF p1 m1 a1 pl1 t2' ok2]
  note rows2 = verifyPayment_found_rows [OF p1 m1 a1 pl1 t2' ok2]
  show "fst (verifyPayment tz now2 ?s1 i adminId) =
      Returned (Some (markVerified adminId now2 (markVerified adminId now1 p)))"
    by (rule second(1))
  show "getMember (snd (verifyPayment tz now2 ?s1 i adminId)) (p_memberId p) =
           Some (m\<lparr>m_status := Some ''active'', m_planId := Some (mp_id plan),
                   m_expiryDate := Some (dateColumn t2)\<rparr>)"
    using rows2(2) by (simp add: markVerified_def)
  show "map a_activityType (newActivities ?s1 (snd (verifyPayment tz now2 ?s1 i adminId))) =
      [''payment_verified'', ''member_updated'', ''membership_activated'']"
    by (rule second(6))
  show "members (snd (verifyPayment tz now2 ?s1 i adminId)) =
           updateMemberRows (p_memberId p)
             \<lparr>md_status = Some ''active'', md_planId = Some (mp_id plan), md_expiryDate = Some t2\<rparr>
             (updateMemberRows (p_memberId p)
                \<lparr>md_status = Some ''active'', md_planId = Some (mp_id plan), md_expiryDate = Some t1\<rparr>
                (members s))"
    using second(2) first(2) by (simp add: markVerified_def)
qed

text \<open>
  C6, as the code has it. \<^verbatim>\<open>verifyPayment\<close> does not look at the payment's status. After a
  first verification (payment, member, administrator and plan found, the dates ones the
  database reads) the payment is verified and the member's expiry is the day computed
  from the row as it was; a second verification of the same payment returns the payment
  again, appends the same three audit entries and computes the expiry anew from the expiry
  the first call stored. What the second call adds depends on the plan's duration type and
  on that stored expiry. When the stored expiry is not before the second call's instant:
  for \<^verbatim>\<open>day\<close> the second expiry is the first plus the duration in days, for \<^verbatim>\<open>week\<close> the
  first plus seven times the duration in days, and for \<^verbatim>\<open>month\<close> and \<^verbatim>\<open>year\<close> the first
  moved by the duration in calendar months or years.
\<close>

theorem verifyPayment_not_idempotent:
  assumes p: "getPayment s i = Some p"
    and m: "getMember s (p_memberId p) = Some m"
    and a: "getUser s adminId = Some a"
    and pl: "getMembershipPlan s (p_planId p) = Some plan"
    and t1: "verifyExpiry tz plan (m_expiryDate m) now1 = Some t1"
    and ok1: "isoAccepted t1"
    and t2: "verifyExpiry tz plan (Some (dateColumn t1)) now2 = Some t2"
    and ok2: "isoAccepted t2"
  shows "map_option p_status (getPayment (snd (verifyPayment tz now1 s i adminId)) i) = Some ''verified'' \<and>
         map_option m_expiryDate (getMember (snd (verifyPayment tz now1 s i adminId)) (p_memberId p)) =
           Some (Some (dateColumn t1)) \<and>
         fst (verifyPayment tz now2 (snd (verifyPayment tz now1 s i adminId)) i adminId) =
           Returned (Some (markVerified adminId now2 (markVerified adminId now1 p))) \<and>
         map_option m_expiryDate
           (getMember (snd (verifyPayment tz now2 (snd (verifyPayment tz now1 s i adminId)) i adminId))
              (p_memberId p)) = Some (Some (dateColumn t2)) \<and>
         map a_activityType
           (newActivities (snd (verifyPayment tz now1 s i adminId))
              (snd (verifyPayment tz now2 (snd (verifyPayment tz now1 s i adminId)) i adminId))) =
           [''payment_verified'', ''member_updated'', ''membership_activated''] \<and>
         (mp_durationType plan = ''day'' \<and> \<not> dateColumn t1 < now2 \<longrightarrow>
            dateColumn t2 = dateColumn t1 + mp_duration plan * msPerDay) \<and>
         (mp_durationType plan = ''week'' \<and> \<not> dateColumn t1 < now2 \<longrightarrow>
            dateColumn t2 = dateColumn t1 + mp_duration plan * 7 * msPerDay) \<and>
         (mp_durationType plan = ''month'' \<and> \<not> dateColumn t1 < now2 \<longrightarrow>
            Some t2 = addMonths tz (Some (dateColumn t1)) (mp_duration plan)) \<and>
         (mp_durationType plan = ''year'' \<and> \<not> dateColumn t1 < now2 \<longrightarrow>
            Some t2 = addYears tz (Some (dateColumn t1)) (mp_duration plan))"
proof -
  let ?s1 = "snd (verifyPayment tz now1 s i adminId)"
  let ?s2 = "snd (verifyPayment tz now2 ?s1 i adminId)"
  note rows = verifyPayment_found_rows [OF p m a pl t1 ok1]
  note again = verifyPayment_again [OF p m a pl t1 ok1 t2 ok2]
  have 1: "map_option p_status (getPayment ?s1 i) = Some ''verified''"
    by (simp add: rows(1) markVerified_def)
  have 2: "map_option m_expiryDate (getMember ?s1 (p_memberId p)) = Some (Some (dateColumn t1))"
    by (simp add: rows(2))
  have 3: "fst (verifyPayment tz now2 ?s1 i adminId) =
      Returned (Some (markVerified adminId now2 (markVerified adminId now1 p)))"
    by (rule again(1))
  have 4: "map_option m_expiryDate (getMember ?s2 (p_memberId p)) = Some (Some (dateColumn t2))"
    by (simp add: again(2))
  have 5: "map a_activityType (newActivities ?s1 ?s2) =
      [''payment_verified'', ''member_updated'', ''membership_activated'']"
    by (rule again(3))
  have 6: "mp_durationType plan = ''day'' \<and> \<not> dateColumn t1 < now2 \<longrightarrow>
      dateColumn t2 = dateColumn t1 + mp_duration plan * msPerDay"
    using verifyExpiry_day_stacks [OF _ _ t2] by (auto simp: dateColumn_add_days)
  have 7: "mp_durationType plan = ''week'' \<and> \<not> dateColumn t1 < now2 \<longrightarrow>
      dateColumn t2 = dateColumn t1 + mp_duration plan * 7 * msPerDay"
    using verifyExpiry_week_stacks [OF _ _ t2] by (auto simp: dateColumn_add_days)
  have 8: "mp_durationType plan = ''month'' \<and> \<not> dateColumn t1 < now2 \<longrightarrow>
      Some t2 = addMonths tz (Some (dateColumn t1)) (mp_duration plan)"
    using t2 by (auto simp: verifyExpiry_stacks verifyAddDuration_def)
  have 9: "mp_durationType plan = ''year'' \<and> \<not> dateColumn t1 < now2 \<longrightarrow>
      Some t2 = addYears tz (Some (dateColumn t1)) (mp_duration plan)"
    using t2 by (auto simp: verifyExpiry_stacks verifyAddDuration_def)
  from 1 2 3 4 5 6 7 8 9 show ?thesis by (intro conjI)
qed

theorem verifyPayment_not_idempotent_witness:
  "map_option m_expiryDate (getMember (snd (verifyPayment zoneUTC demoNow demoStore 2 1)) 1) =
     Some (Some 1707868800000) \<and>
   map_option m_expiryDate
     (getMember (snd (verifyPayment zoneUTC (demoNow + 60000)
                        (snd (verifyPayment zoneUTC demoNow demoStore 2 1)) 2 1)) 1) =
     Some (Some (1707868800000 + 30 * msPerDay))"
proof -
  have h: "getPayment demoStore 2 = Some paymentTwo"
      "getMember demoStore (p_memberId paymentTwo) = Some memberAna"
      "getUser demoStore 1 = Some demoAdmin"
      "getMembershipPlan demoStore (p_planId paymentTwo) = Some planPase"
      "verifyExpiry zoneUTC planPase (m_expiryDate memberAna) demoNow = Some 1707904800000"
      "isoAccepted 1707904800000"
      "verifyExpiry zoneUTC planPase (Some (dateColumn 1707904800000)) (demoNow + 60000) =
         Some 1710460800000"
      "isoAccepted 1710460800000"
    by code_simp+
  have ev: "p_memberId paymentTwo = 1" "dateColumn 1707904800000 = 1707868800000"
      "dateColumn 1710460800000 = 1707868800000 + 30 * msPerDay"
    by code_simp+
  note twice = verifyPayment_not_idempotent [OF h]
  from twice [THEN conjunct2, THEN conjunct1]
    twice [THEN conjunct2, THEN conjunct2, THEN conjunct2, THEN conjunct1]
  show ?thesis unfolding ev by (intro conjI)
qed

text \<open>
  C6 as the specification words it, a second call that stacks one more plan duration onto
  the expiry, does not hold of the plans the system seeds. Payment 1 is for the monthly
  plan, whose type is \<^verbatim>\<open>monthly\<close>. Verified a second time a minute after the first, the
  payment is returned again and the audit entries are written again, but the members table
  after the second call is the members table after the first: the expiry is still
  2024-01-15 and no duration has been added.
\<close>

theorem verify_twice_monthly_counterexample:
  "getPayment demoStore 1 = Some paymentOne \<and>
   getMembershipPlan demoStore (p_planId paymentOne) = Some planMensual \<and>
   mp_durationType planMensual = ''monthly'' \<and> mp_duration planMensual = 1 \<and>
   map_option p_status (getPayment (snd (verifyPayment zoneUTC demoNow demoStore 1 1)) 1) =
     Some ''verified'' \<and>
   map_option m_expiryDate (getMember (snd (verifyPayment zoneUTC demoNow demoStore 1 1)) 1) =
     Some (Some 1705276800000) \<and>
   fst (verifyPayment zoneUTC (demoNow + 60000) (snd (verifyPayment zoneUTC demoNow demoStore 1 1)) 1 1) =
     Returned (Some (markVerified 1 (demoNow + 60000) (markVerified 1 demoNow paymentOne))) \<and>
   members (snd (verifyPayment zoneUTC (demoNow + 60000)
                   (snd (verifyPayment zoneUTC demoNow demoStore 1 1)) 1 1)) =
     members (snd (verifyPayment zoneUTC demoNow demoStore 1 1)) \<and>
   map_option m_expiryDate
     (getMember (snd (verifyPayment zoneUTC (demoNow + 60000)
                        (snd (verifyPayment zoneUTC demoNow demoStore 1 1)) 1 1)) 1) =
     Some (Some 1705276800000)"
proof -
  have p: "getPayment demoStore 1 = Some paymentOne" by code_simp
  have m: "getMember demoStore (p_memberId paymentOne) = Some memberAna" by code_simp
  have a: "getUser demoStore 1 = Some demoAdmin" by code_simp
  have pl: "getMembershipPlan demoStore (p_planId paymentOne) = Some planMensual" by code_simp
  have t1: "verifyExpiry zoneUTC planMensual (m_expiryDate memberAna) demoNow = Some demoNow"
    by code_simp
  have ok1: "isoAccepted demoNow" by code_simp
  have t2: "verifyExpiry zoneUTC planMensual (Some (dateColumn demoNow)) (demoNow + 60000) =
      Some (demoNow + 60000)"
    by code_simp
  have ok2: "isoAccepted (demoNow + 60000)" by code_simp
  have ev: "p_memberId paymentOne = 1" "dateColumn demoNow = 1705276800000"
      "dateColumn (demoNow + 60000) = 1705276800000"
    by code_simp+
  have 0: "mp_durationType planMensual = ''monthly'' \<and> mp_duration planMensual = 1" by code_simp
  have same: "updateMemberRows (p_memberId paymentOne)
        \<lparr>md_status = Some ''active'', md_planId = Some (mp_id planMensual),
         md_expiryDate = Some (demoNow + 60000)\<rparr>
        (updateMemberRows (p_memberId paymentOne)
           \<lparr>md_status = Some ''active'', md_planId = Some (mp_id planMensual),
            md_expiryDate = Some demoNow\<rparr> (members demoStore)) =
      updateMemberRows (p_memberId paymentOne)
           \<lparr>md_status = Some ''active'', md_planId = Some (mp_id planMensual),
            md_expiryDate = Some demoNow\<rparr> (members demoStore)"
    by code_simp
  note first = verifyPayment_found(2) [OF p m a pl t1 ok1]
  note rows = verifyPayment_found_rows [OF p m a pl t1 ok1, unfolded ev]
  note again = verifyPayment_again [OF p m a pl t1 ok1 t2 ok2]
  have 1: "map_option p_status (getPayment (snd (verifyPayment zoneUTC demoNow demoStore 1 1)) 1) =
     Some ''verified''"
    by (simp add: rows(1) markVerified_def)
  have 2: "map_option m_expiryDate (getMember (snd (verifyPayment zoneUTC demoNow demoStore 1 1)) 1) =
     Some (Some 1705276800000)"
    by (simp add: rows(2))
  have 3: "members (snd (verifyPayment zoneUTC (demoNow + 60000)
                   (snd (verifyPayment zoneUTC demoNow demoStore 1 1)) 1 1)) =
     members (snd (verifyPayment zoneUTC demoNow demoStore 1 1))"
    unfolding again(4) first by (rule same)
  have 4: "map_option m_expiryDate
     (getMember (snd (verifyPayment zoneUTC (demoNow + 60000)
                        (snd (verifyPayment zoneUTC demoNow demoStore 1 1)) 1 1)) 1) =
     Some (Some 1705276800000)"
    using again(2) [unfolded ev] by simp
  from p pl 0 1 2 again(1) 3 4 show ?thesis by blast
qed

text \<open>
  \<^verbatim>\<open>MemStorage.verifyPayment\<close> has no guard on the payment's status either. Verified twice,
  the payment for the 30-day pass moves the member's expiry by 30 days each time; the
  payment for the monthly plan leaves it at the instant of the second call, with no
  duration added.
\<close>

lemma mem_verifyPayment_twice_example:
  "map_option m_expiryDate
     (getMember (snd (mem_verifyPayment zoneUTC demoNow (memStore demoStore) 2 1)) 1) =
     Some (Some 1707904800000) \<and>
   map_option m_expiryDate
     (getMember (snd (mem_verifyPayment zoneUTC (demoNow + 60000)
                        (snd (mem_verifyPayment zoneUTC demoNow (memStore demoStore) 2 1)) 2 1)) 1) =
     Some (Some (1707904800000 + 30 * msPerDay)) \<and>
   map_option m_expiryDate
     (getMember (snd (mem_verifyPayment zoneUTC demoNow (memStore demoStore) 1 1)) 1) =
     Some (Some demoNow) \<and>
   map_option m_expiryDate
     (getMember (snd (mem_verifyPayment zoneUTC (demoNow + 60000)
                        (snd (mem_verifyPayment zoneUTC demoNow (memStore demoStore) 1 1)) 1 1)) 1) =
     Some (Some (demoNow + 60000))"
  by code_simp

section \<open>Verification and the rows a payment refers to\<close>

text \<open>
  C10, as the code and the schema have it. The payments table refers to the members, the
  plans and the users, so a payment that \<^verbatim>\<open>verifyPayment\<close> finds has its member and its
  plan, and the guard \<^verbatim>\<open>member && admin && plan\<close> can only fail on the administrator. When
  the administrator's id is no user's, the update of the payment is refused: the call ends
  in that error and the store is as it was, the payment not verified. When the
  administrator is a user, the payment is marked verified with the administrator's id and
  the current time and the \<^verbatim>\<open>payment_verified\<close> entry is written: the extension is never
  skipped silently.
\<close>

theorem verify_missing_party_is_refused:
  assumes fk: "foreignKeysHold s" and p: "getPayment s i = Some p"
  shows "getMember s (p_memberId p) \<noteq> None \<and>
         getMembershipPlan s (p_planId p) \<noteq> None \<and>
         (getUser s adminId = None \<longrightarrow>
            verifyPayment tz now s i adminId = (Threw StoreFailure, s)) \<and>
         (getUser s adminId \<noteq> None \<longrightarrow>
            getPayment (snd (verifyPayment tz now s i adminId)) i = Some (markVerified adminId now p) \<and>
            p_status (markVerified adminId now p) = ''verified'' \<and>
            p_verifiedById (markVerified adminId now p) = Some adminId \<and>
            p_verifiedAt (markVerified adminId now p) = Some now \<and>
            take 1 (map a_activityType (newActivities s (snd (verifyPayment tz now s i adminId)))) =
              [''payment_verified''])"
proof -
  note refs = stored_payment_refs [OF fk p]
  from refs obtain m plan where m: "getMember s (p_memberId p) = Some m"
    and pl: "getMembershipPlan s (p_planId p) = Some plan" by auto
  have 3: "verifyPayment tz now s i adminId = (Threw StoreFailure, s)" if "getUser s adminId = None"
    using p that by (rule verifyPayment_refused)
  have 4: "getPayment (snd (verifyPayment tz now s i adminId)) i = Some (markVerified adminId now p) \<and>
      p_status (markVerified adminId now p) = ''verified'' \<and>
      p_verifiedById (markVerified adminId now p) = Some adminId \<and>
      p_verifiedAt (markVerified adminId now p) = Some now \<and>
      take 1 (map a_activityType (newActivities s (snd (verifyPayment tz now s i adminId)))) =
        [''payment_verified'']"
    if "getUser s adminId \<noteq> None"
  proof -
    from that obtain a where a: "getUser s adminId = Some a" by auto
    from verifyPayment_attempted [OF p m a pl] show ?thesis by (simp add: markVerified_def)
  qed
  from refs 3 4 show ?thesis by blast
qed

theorem verify_missing_party_is_refused_witness:
  "verifyPayment zoneUTC demoNow demoStore 2 7 = (Threw StoreFailure, demoStore) \<and>
   getPayment (snd (verifyPayment zoneUTC demoNow demoStore 2 1)) 2 =
     Some (markVerified 1 demoNow paymentTwo) \<and>
   take 1 (map a_activityType
     (newActivities demoStore (snd (verifyPayment zoneUTC demoNow demoStore 2 1)))) =
     [''payment_verified'']"
proof -
  have fk: "foreignKeysHold demoStore" by code_simp
  have p: "getPayment demoStore 2 = Some paymentTwo" by code_simp
  have no: "getUser demoStore 7 = None" by code_simp
  have yes: "getUser demoStore 1 \<noteq> None" by code_simp
  note r7 = verify_missing_party_is_refused [OF fk p, of 7 zoneUTC demoNow]
  note r1 = verify_missing_party_is_refused [OF fk p, of 1 zoneUTC demoNow]
  note a = r7 [THEN conjunct2, THEN conjunct2, THEN conjunct1, THEN mp, OF no]
  note b = r1 [THEN conjunct2, THEN conjunct2, THEN conjunct2, THEN mp, OF yes]
  from a b [THEN conjunct1] b [THEN conjunct2, THEN conjunct2, THEN conjunct2, THEN conjunct2]
  show ?thesis by (intro conjI)
qed

text \<open>
  C10 as the specification words it does not hold. Payment 1 exists and is pending; no
  user has the id 99. Verifying payment 1 as administrator 99 ends in the error of the
  refused update, not in a returned payment, and the payment is still pending.
\<close>

theorem verify_unknown_admin_counterexample:
  "getPayment demoStore 1 = Some paymentOne \<and>
   p_status paymentOne = ''pending'' \<and>
   getUser demoStore 99 = None \<and>
   fst (verifyPayment zoneUTC demoNow demoStore 1 99) = Threw StoreFailure \<and>
   snd (verifyPayment zoneUTC demoNow demoStore 1 99) = demoStore \<and>
   map_option p_status (getPayment (snd (verifyPayment zoneUTC demoNow demoStore 1 99)) 1) =
     Some ''pending''"
proof -
  have p: "getPayment demoStore 1 = Some paymentOne" by code_simp
  have st: "p_status paymentOne = ''pending''" by code_simp
  have no: "getUser demoStore 99 = None" by code_simp
  note r = verifyPayment_refused [OF p no, of zoneUTC demoNow]
  from p st no show ?thesis by (simp add: r)
qed

section \<open>The expiry sweep\<close>

lemma setMemberData_status_only:
  "setMemberData \<lparr>md_status = Some st, md_planId = None, md_expiryDate = None\<rparr> r = r\<lparr>m_status := Some st\<rparr>"
  by (simp add: setMemberData_def)

lemma expireLoop_members:
  "members (expireLoop now xs s) =
     map (\<lambda>r. if m_id r \<in> m_id ` set xs then r\<lparr>m_status := Some ''expired''\<rparr> else r) (members s)"
proof (induction xs arbitrary: s)
  case Nil
  then show ?case by (simp add: map_idI)
next
  case (Cons x xs)
  show ?case
    by (simp add: Cons.IH createActivity_def updateMemberRows_def setMemberData_status_only)
qed

lemma expireLoop_activities:
  "\<exists>new. activities (expireLoop now xs s) = activities s @ new \<and>
         map activityData new = map (expireActivity now) xs"
proof (induction xs arbitrary: s)
  case Nil
  then show ?case by simp
next
  case (Cons x xs)
  let ?s1 = "createActivity
          (s\<lparr>members := updateMemberRows (m_id x)
                 \<lparr>md_status = Some ''expired'', md_planId = None, md_expiryDate = None\<rparr>
                 (members s)\<rparr>)
          (expireActivity now x)"
  from Cons.IH [of ?s1] obtain new where
    n: "activities (expireLoop now xs ?s1) = activities ?s1 @ new"
       "map activityData new = map (expireActivity now) xs" by blast
  have "\<exists>a. activities ?s1 = activities s @ [a] \<and> activityData a = expireActivity now x"
    by (simp add: createActivity_def activityData_def)
  then obtain a where a: "activities ?s1 = activities s @ [a]" "activityData a = expireActivity now x"
    by blast
  have "activities (expireLoop now (x # xs) s) = activities s @ (a # new)"
    using n(1) a(1) by simp
  moreover have "map activityData (a # new) = map (expireActivity now) (x # xs)"
    using n(2) a(2) by simp
  ultimately show ?case by blast
qed

lemma expireLoop_frame:
  "users (expireLoop now xs s) = users s \<and>
   membershipPlans (expireLoop now xs s) = membershipPlans s \<and>
   payments (expireLoop now xs s) = payments s \<and>
   paymentIdCounter (expireLoop now xs s) = paymentIdCounter s"
  by (induction xs arbitrary: s) (simp_all add: createActivity_def)

lemma distinct_key_filter:
  assumes "distinct (map k xs)" and "x \<in> set xs"
  shows "(k x \<in> k ` set (filter P xs)) = P x"
  using assms by (induction xs) (auto simp: image_iff)

lemma distinct_key_count:
  assumes "distinct (map k xs)" and "x \<in> set xs"
  shows "length (filter (\<lambda>y. k y = k x) (filter P xs)) = (if P x then 1 else 0)"
  using assms
proof (induction xs)
  case Nil
  then show ?case by simp
next
  case (Cons y ys)
  have none: "k z \<notin> k ` set ys \<Longrightarrow> filter (\<lambda>y. k y = k z) (filter P ys) = []" for z
    by (auto simp: filter_empty_conv) (metis imageI)
  show ?case
  proof (cases "x = y")
    case True
    with Cons.prems none [of y] show ?thesis by auto
  next
    case False
    with Cons.prems have "x \<in> set ys" "k y \<noteq> k x" by (auto simp: image_iff)
    with Cons show ?thesis by auto
  qed
qed

text \<open>
  What every call of \<^verbatim>\<open>DatabaseStorage.getMembers\<close> does on a members table whose ids are
  a primary key: each member whose status is \<^verbatim>\<open>active\<close> and whose expiry date is present
  and lies before the local midnight that began today gets the status \<^verbatim>\<open>expired\<close>, with
  every other column kept; exactly one \<^verbatim>\<open>membership_expired\<close> entry with that member's id
  is appended per such member and none for any other member; the list returned is the
  table after the sweep; no other row and no other table changes.
\<close>

lemma getMembers_sweep:
  assumes "distinct (map m_id (members s))"
  shows "fst (getMembers tz now s) = members (snd (getMembers tz now s))"
    and "members (snd (getMembers tz now s)) =
           map (\<lambda>m. if needsExpiry (startOfDay tz now) m then m\<lparr>m_status := Some ''expired''\<rparr> else m)
               (members s)"
    and "activities (snd (getMembers tz now s)) =
           activities s @ newActivities s (snd (getMembers tz now s))"
    and "map activityData (newActivities s (snd (getMembers tz now s))) =
           map (expireActivity now) (filter (needsExpiry (startOfDay tz now)) (members s))"
    and "\<And>m. m \<in> set (members s) \<Longrightarrow>
            expiredEntriesFor (m_id m) (newActivities s (snd (getMembers tz now s))) =
              (if needsExpiry (startOfDay tz now) m then 1 else 0)"
    and "users (snd (getMembers tz now s)) = users s"
    and "membershipPlans (snd (getMembers tz now s)) = membershipPlans s"
    and "payments (snd (getMembers tz now s)) = payments s"
proof -
  let ?today = "startOfDay tz now"
  let ?upd = "filter (needsExpiry ?today) (members s)"
  let ?s' = "snd (getMembers tz now s)"
  have s': "?s' = expireLoop now ?upd s" by (simp add: getMembers_def Let_def)
  show mem: "members ?s' =
      map (\<lambda>m. if needsExpiry ?today m then m\<lparr>m_status := Some ''expired''\<rparr> else m) (members s)"
  proof -
    have "(m_id x \<in> m_id ` set ?upd) = needsExpiry ?today x" if "x \<in> set (members s)" for x
      using distinct_key_filter [OF assms that] .
    then show ?thesis
      unfolding s' expireLoop_members by (intro map_cong refl) (simp del: set_filter)
  qed
  show "fst (getMembers tz now s) = members ?s'"
    unfolding mem by (simp add: getMembers_def Let_def)
  from expireLoop_activities [of now ?upd s] obtain new where
    new: "activities ?s' = activities s @ new" "map activityData new = map (expireActivity now) ?upd"
    unfolding s' by blast
  have nw: "newActivities s ?s' = new" by (simp add: newActivities_def new(1))
  show "activities ?s' = activities s @ newActivities s ?s'"
    using new(1) nw by simp
  show "map activityData (newActivities s ?s') = map (expireActivity now) ?upd"
    using new(2) nw by simp
  show "expiredEntriesFor (m_id m) (newActivities s ?s') = (if needsExpiry ?today m then 1 else 0)"
    if "m \<in> set (members s)" for m
  proof -
    have "expiredEntriesFor (m_id m) new =
        length (filter (\<lambda>a. ia_activityType a = ''membership_expired'' \<and> ia_memberId a = Some (m_id m))
                 (map activityData new))"
      by (simp add: expiredEntriesFor_def filter_map comp_def activityData_def)
    also have "\<dots> = length (filter (\<lambda>y. m_id y = m_id m) ?upd)"
      unfolding new(2) by (simp add: filter_map comp_def expireActivity_def)
    also have "\<dots> = (if needsExpiry ?today m then 1 else 0)"
      by (rule distinct_key_count [OF assms that])
    finally show ?thesis by (simp add: nw)
  qed
  show "users ?s' = users s" "membershipPlans ?s' = membershipPlans s" "payments ?s' = payments s"
    using expireLoop_frame [of now ?upd s] s' by simp_all
qed

text \<open>
  The comparison the sweep makes. An expiry date is the midnight in UTC of a calendar
  day \<open>d\<close>; \<^verbatim>\<open>today.setHours(0, 0, 0, 0)\<close> is the midnight of the server's zone. On a server
  at UTC or east of it the date is before that midnight exactly when the day \<open>d\<close> is
  before the local day. On a server west of UTC it is so exactly when the day \<open>d\<close> is not
  after the local day: the day that is today counts as passed.
\<close>

lemma day_multiple_less:
  fixes d l k tz :: int
  assumes "0 < k" and "0 \<le> tz" and "tz < k"
  shows "(d * k < l * k - tz) = (d < l)"
proof
  assume "d * k < l * k - tz"
  with assms have "d * k < l * k" by linarith
  with assms(1) show "d < l" by (simp add: mult_less_cancel_right)
next
  assume "d < l"
  then have "d + 1 \<le> l" by simp
  with assms(1) have "(d + 1) * k \<le> l * k" by (simp add: mult_right_mono)
  then have "d * k + k \<le> l * k" by (simp add: algebra_simps)
  with assms show "d * k < l * k - tz" by linarith
qed

lemma day_multiple_le:
  fixes d l k tz :: int
  assumes "0 < k" and "tz < 0" and "- k < tz"
  shows "(d * k < l * k - tz) = (d \<le> l)"
proof
  assume a: "d * k < l * k - tz"
  show "d \<le> l"
  proof (rule ccontr)
    assume "\<not> d \<le> l"
    then have "l + 1 \<le> d" by simp
    with assms(1) have "(l + 1) * k \<le> d * k" by (simp add: mult_right_mono)
    then have "l * k + k \<le> d * k" by (simp add: algebra_simps)
    with a assms show False by linarith
  qed
next
  assume "d \<le> l"
  with assms(1) have "d * k \<le> l * k" by (simp add: mult_right_mono)
  with assms show "d * k < l * k - tz" by linarith
qed

lemma sweep_comparison_east:
  assumes "0 \<le> tz" and "tz < msPerDay"
  shows "(d * msPerDay < startOfDay tz now) = (d < dayOf (now + tz))"
  unfolding startOfDay_def using assms by (intro day_multiple_less) (simp_all add: msPerDay_def)

lemma sweep_comparison_west:
  assumes "tz < 0" and "- msPerDay < tz"
  shows "(d * msPerDay < startOfDay tz now) = (d \<le> dayOf (now + tz))"
  unfolding startOfDay_def using assms by (intro day_multiple_le) (simp_all add: msPerDay_def)

text \<open>
  C5 asks for a comparison of dates only: a member is swept when the expiry date is
  strictly before today, and the comment in \<^verbatim>\<open>DatabaseStorage.getMembers\<close> says the hour is
  set to 00:00:00 to compare the date only. Member 3 is active and the membership ends on
  2024-01-15. On a server in Lima the members are listed at ten in the morning of
  2024-01-15: the expiry date is today in the server's zone and in UTC, not before today,
  and the sweep sets the member to \<^verbatim>\<open>expired\<close> all the same and writes the audit entry,
  because the local midnight, 05:00 in UTC, lies after the midnight in UTC the date is
  read as. The same listing on a server at UTC leaves the member active.
  \<^verbatim>\<open>MemStorage.getMembers\<close> does not set the hour at all: at ten in the morning in UTC it
  expires the member whose membership ends that day.
\<close>

theorem sweep_expires_member_on_last_day:
  "m_status memberEva = Some ''active'' \<and>
   m_expiryDate memberEva = Some 1705276800000 \<and>
   dayOf 1705276800000 = dayOf (limaNow + zoneLima) \<and>
   dayOf 1705276800000 = dayOf limaNow \<and>
   startOfDay zoneLima limaNow = 1705294800000 \<and>
   map m_status (fst (getMembers zoneLima limaNow demoStore)) =
     [Some ''pending'', Some ''expired'', Some ''expired''] \<and>
   map m_status (members (snd (getMembers zoneLima limaNow demoStore))) =
     [Some ''pending'', Some ''expired'', Some ''expired''] \<and>
   map a_memberId (newActivities demoStore (snd (getMembers zoneLima limaNow demoStore))) =
     [Some 2, Some 3] \<and>
   map a_activityType (newActivities demoStore (snd (getMembers zoneLima limaNow demoStore))) =
     [''membership_expired'', ''membership_expired''] \<and>
   dayOf 1705276800000 = dayOf demoNow \<and>
   map m_status (fst (getMembers zoneUTC demoNow demoStore)) =
     [Some ''pending'', Some ''expired'', Some ''active''] \<and>
   map m_status (fst (mem_getMembers demoNow (memStore demoStore))) =
     [Some ''pending'', Some ''expired'', Some ''expired''] \<and>
   map a_memberId
     (newActivities (memStore demoStore) (snd (mem_getMembers demoNow (memStore demoStore)))) =
     [Some 2, Some 3]"
proof -
  have 1: "m_status memberEva = Some ''active'' \<and>
      m_expiryDate memberEva = Some 1705276800000 \<and>
      dayOf 1705276800000 = dayOf (limaNow + zoneLima) \<and>
      dayOf 1705276800000 = dayOf limaNow \<and>
      startOfDay zoneLima limaNow = 1705294800000"
    by code_simp
  have 2: "map m_status (fst (getMembers zoneLima limaNow demoStore)) =
      [Some ''pending'', Some ''expired'', Some ''expired'']"
    by code_simp
  have 3: "map m_status (members (snd (getMembers zoneLima limaNow demoStore))) =
      [Some ''pending'', Some ''expired'', Some ''expired'']"
    by code_simp
  have 4: "map a_memberId (newActivities demoStore (snd (getMembers zoneLima limaNow demoStore))) =
      [Some 2, Some 3]"
    by code_simp
  have 5: "map a_activityType (newActivities demoStore (snd (getMembers zoneLima limaNow demoStore))) =
      [''membership_expired'', ''membership_expired'']"
    by code_simp
  have 6: "dayOf 1705276800000 = dayOf demoNow \<and>
      map m_status (fst (getMembers zoneUTC demoNow demoStore)) =
        [Some ''pending'', Some ''expired'', Some ''active'']"
    by code_simp
  have 7: "map m_status (fst (mem_getMembers demoNow (memStore demoStore))) =
      [Some ''pending'', Some ''expired'', Some ''expired'']"
    by code_simp
  have 8: "map a_memberId
      (newActivities (memStore demoStore) (snd (mem_getMembers demoNow (memStore demoStore)))) =
      [Some 2, Some 3]"
    by code_simp
  from 1 2 3 4 5 6 7 8 show ?thesis by blast
qed

section \<open>Rejecting a payment\<close>


lemma mem_rejectPayment_found:
  assumes "mem_getPayment s i = Some q"
  shows "fst (mem_rejectPayment now s i adminId notes) = Some (mem_markRejected adminId now notes q)"
    and "payments (snd (mem_rejectPayment now s i adminId notes)) =
           map (\<lambda>r. if mq_id r = i then mem_markRejected adminId now notes q else r) (payments s)"
    and "members (snd (mem_rejectPayment now s i adminId notes)) = members s"
    and "map a_activityType (newActivities s (snd (mem_rejectPayment now s i adminId notes))) =
           (if getMember s (ip_memberId q) \<noteq> None \<and> getUser s adminId \<noteq> None
            then [''payment_rejected''] else [])"
  using assms
  by (auto simp: mem_rejectPayment_def Let_def lookups_payments_upd newActivities_types
      split: option.splits)




section \<open>Payments that are not there\<close>

text \<open>
  C8. A call of \<^verbatim>\<open>verifyPayment\<close> or \<^verbatim>\<open>rejectPayment\<close> with a payment id that no payment
  has returns undefined (the route answers 404) and leaves the whole store as it was: no
  payment, member or audit entry is created or changed.
\<close>

theorem payment_not_found_no_effect:
  assumes "getPayment s i = None"
  shows "verifyPayment tz now s i adminId = (Returned None, s) \<and>
         rejectPayment now s i adminId notes = (Returned None, s)"
  using assms
  by (simp add: verifyPayment_def rejectPayment_def Let_def getPayment_def find_None_map_id)

theorem payment_not_found_no_effect_witness:
  "getPayment demoStore 7 = None \<and>
   verifyPayment zoneUTC demoNow demoStore 7 1 = (Returned None, demoStore) \<and>
   rejectPayment demoNow demoStore 7 1 (Some ''falso'') = (Returned None, demoStore)"
proof -
  have h: "getPayment demoStore 7 = None" by code_simp
  from payment_not_found_no_effect [OF h, of zoneUTC demoNow 1 "Some ''falso''"] h
  show ?thesis by simp
qed

section \<open>The two implementations side by side\<close>

lemma distinct_find_unique:
  assumes "distinct (map k xs)" and "find (\<lambda>r. k r = i) xs = Some x"
    and "r \<in> set xs" and "k r = i"
  shows "r = x"
proof -
  have "x \<in> set xs" "k x = i" using assms(2) by (auto dest: find_in_set find_Some_key)
  with assms show ?thesis by (auto simp: distinct_map dest: inj_onD)
qed

text \<open>The in-memory store of the same tables answers the lookups as the database does.\<close>

lemma memStore_lookups [simp]:
  "getUser (memStore s) = getUser s"
  "getMembershipPlan (memStore s) = getMembershipPlan s"
  "getMember (memStore s) = getMember s"
  "members (memStore s) = members s"
  "activities (memStore s) = activities s"
  "payments (memStore s) = map stored (payments s)"
  by (simp_all add: fun_eq_iff memStore_def getUser_def getMembershipPlan_def getMember_def)

lemma mem_getPayment_memStore:
  "mem_getPayment (memStore s) i = map_option stored (getPayment s i)"
proof -
  have "find (\<lambda>q. mq_id q = i) (map stored xs) = map_option stored (find (\<lambda>p. p_id p = i) xs)" for xs
    by (induction xs) (simp_all add: stored_def)
  then show ?thesis by (simp add: mem_getPayment_def getPayment_def)
qed

lemma stored_simps [simp]:
  "ip_memberId (stored p) = p_memberId p"
  "ip_planId (stored p) = p_planId p"
  "mq_id (stored p) = p_id p"
  "ip_status (stored p) = Some (p_status p)"
  "ip_notes (stored p) = p_notes p"
  by (simp_all add: stored_def)

lemma stored_markVerified: "mem_markVerified a n (stored p) = stored (markVerified a n p)"
  by (simp add: mem_markVerified_def markVerified_def stored_def)

lemma stored_markRejected:
  "notes \<noteq> Some [] \<Longrightarrow> mem_markRejected a n notes (stored p) = stored (markRejected a n notes p)"
  by (auto simp: mem_markRejected_def markRejected_def stored_def split: option.splits)

lemma mem_verifyAddDuration_eq: "mem_verifyAddDuration = verifyAddDuration"
  by (simp add: fun_eq_iff mem_verifyAddDuration_def verifyAddDuration_def)

text \<open>What \<^verbatim>\<open>MemStorage.verifyPayment\<close> does when payment, member, administrator and plan are found.\<close>

lemma mem_verifyPayment_found:
  assumes q: "mem_getPayment s i = Some q"
    and m: "getMember s (ip_memberId q) = Some m"
    and a: "getUser s adminId = Some a"
    and pl: "getMembershipPlan s (ip_planId q) = Some plan"
    and t: "verifyExpiry tz plan (m_expiryDate m) now = Some t"
  shows "fst (mem_verifyPayment tz now s i adminId) = Returned (Some (mem_markVerified adminId now q))"
    and "payments (snd (mem_verifyPayment tz now s i adminId)) =
           map (\<lambda>r. if mq_id r = i then mem_markVerified adminId now q else r) (payments s)"
    and "members (snd (mem_verifyPayment tz now s i adminId)) =
           map (\<lambda>r. if m_id r = ip_memberId q
                     then m\<lparr>m_status := Some ''active'', m_expiryDate := Some t\<rparr> else r) (members s)"
    and "map a_activityType (newActivities s (snd (mem_verifyPayment tz now s i adminId))) =
           [''payment_verified'', ''member_updated'']"
proof -
  have mid: "m_id m = ip_memberId q" using m by (rule getMember_id)
  have t': "verifyAddDuration tz plan
      (if dateLess (case m_expiryDate m of None \<Rightarrow> Some now | Some e \<Rightarrow> Some e) (Some now)
       then Some now else (case m_expiryDate m of None \<Rightarrow> Some now | Some e \<Rightarrow> Some e)) = Some t"
    using t by (simp add: verifyExpiry_def verifyBaseDate_def Let_def)
  note defs = mem_verifyPayment_def Let_def q m a pl mid t' mem_verifyAddDuration_eq
    lookups_payments_upd mem_updateMember_def mem_setMemberData_def
  show "fst (mem_verifyPayment tz now s i adminId) = Returned (Some (mem_markVerified adminId now q))"
    by (simp add: defs)
  show "payments (snd (mem_verifyPayment tz now s i adminId)) =
           map (\<lambda>r. if mq_id r = i then mem_markVerified adminId now q else r) (payments s)"
    by (simp add: defs)
  show "members (snd (mem_verifyPayment tz now s i adminId)) =
           map (\<lambda>r. if m_id r = ip_memberId q
                     then m\<lparr>m_status := Some ''active'', m_expiryDate := Some t\<rparr> else r) (members s)"
    by (simp add: defs)
  show "map a_activityType (newActivities s (snd (mem_verifyPayment tz now s i adminId))) =
           [''payment_verified'', ''member_updated'']"
    by (simp add: defs newActivities_types)
qed

lemma mem_verifyPayment_range_error:
  assumes q: "mem_getPayment s i = Some q"
    and m: "getMember s (ip_memberId q) = Some m"
    and a: "getUser s adminId = Some a"
    and pl: "getMembershipPlan s (ip_planId q) = Some plan"
    and t: "verifyExpiry tz plan (m_expiryDate m) now = None"
  shows "fst (mem_verifyPayment tz now s i adminId) = Threw RangeError"
    and "payments (snd (mem_verifyPayment tz now s i adminId)) =
           map (\<lambda>r. if mq_id r = i then mem_markVerified adminId now q else r) (payments s)"
    and "members (snd (mem_verifyPayment tz now s i adminId)) = members s"
proof -
  have t': "verifyAddDuration tz plan
      (if dateLess (case m_expiryDate m of None \<Rightarrow> Some now | Some e \<Rightarrow> Some e) (Some now)
       then Some now else (case m_expiryDate m of None \<Rightarrow> Some now | Some e \<Rightarrow> Some e)) = None"
    using t by (simp add: verifyExpiry_def verifyBaseDate_def Let_def)
  note defs = mem_verifyPayment_def Let_def q m a pl t' mem_verifyAddDuration_eq lookups_payments_upd
  show "fst (mem_verifyPayment tz now s i adminId) = Threw RangeError"
    by (simp add: defs)
  show "payments (snd (mem_verifyPayment tz now s i adminId)) =
           map (\<lambda>r. if mq_id r = i then mem_markVerified adminId now q else r) (payments s)"
    by (simp add: defs)
  show "members (snd (mem_verifyPayment tz now s i adminId)) = members s"
    by (simp add: defs)
qed

text \<open>The two ways in which \<^verbatim>\<open>DatabaseStorage.verifyPayment\<close> fails after it marked the payment.\<close>

lemma verifyPayment_range_error:
  assumes p: "getPayment s i = Some p"
    and m: "getMember s (p_memberId p) = Some m"
    and a: "getUser s adminId = Some a"
    and pl: "getMembershipPlan s (p_planId p) = Some plan"
    and t: "verifyExpiry tz plan (m_expiryDate m) now = None"
  shows "fst (verifyPayment tz now s i adminId) = Threw RangeError"
    and "payments (snd (verifyPayment tz now s i adminId)) =
           map (\<lambda>r. if p_id r = i then markVerified adminId now r else r) (payments s)"
    and "members (snd (verifyPayment tz now s i adminId)) = members s"
proof -
  note defs = verifyPayment_def Let_def p m a pl t lookups_payments_upd getPayment_marked
  show "fst (verifyPayment tz now s i adminId) = Threw RangeError" by (simp add: defs)
  show "payments (snd (verifyPayment tz now s i adminId)) =
           map (\<lambda>r. if p_id r = i then markVerified adminId now r else r) (payments s)"
    by (simp add: defs)
  show "members (snd (verifyPayment tz now s i adminId)) = members s" by (simp add: defs)
qed

lemma verifyPayment_store_failure:
  assumes p: "getPayment s i = Some p"
    and m: "getMember s (p_memberId p) = Some m"
    and a: "getUser s adminId = Some a"
    and pl: "getMembershipPlan s (p_planId p) = Some plan"
    and t: "verifyExpiry tz plan (m_expiryDate m) now = Some t"
    and no: "\<not> isoAccepted t"
  shows "fst (verifyPayment tz now s i adminId) = Threw StoreFailure"
    and "payments (snd (verifyPayment tz now s i adminId)) =
           map (\<lambda>r. if p_id r = i then markVerified adminId now r else r) (payments s)"
    and "members (snd (verifyPayment tz now s i adminId)) = members s"
proof -
  note defs = verifyPayment_def Let_def p m a pl t no lookups_payments_upd getPayment_marked
    updateMember_def memberDataAccepted_def
  show "fst (verifyPayment tz now s i adminId) = Threw StoreFailure" by (simp add: defs)
  show "payments (snd (verifyPayment tz now s i adminId)) =
           map (\<lambda>r. if p_id r = i then markVerified adminId now r else r) (payments s)"
    by (simp add: defs)
  show "members (snd (verifyPayment tz now s i adminId)) = members s" by (simp add: defs)
qed

lemma mem_createPayment_effect:
  "ip_status (fst (mem_createPayment now ms d)) = ip_status d"
  "mq_id (fst (mem_createPayment now ms d)) = paymentIdCounter ms"
  "members (snd (mem_createPayment now ms d)) = members ms"
  "payments (snd (mem_createPayment now ms d)) = payments ms @ [fst (mem_createPayment now ms d)]"
  "map a_activityType (newActivities ms (snd (mem_createPayment now ms d))) =
     (if getMember ms (ip_memberId d) \<noteq> None \<and> getMembershipPlan ms (ip_planId d) \<noteq> None
      then [''payment_created''] else [])"
  by (auto simp: mem_createPayment_def Let_def lookups_payments_upd newActivities_types
      getMember_def getMembershipPlan_def split: option.splits)

lemma createPayment_not_verified_types:
  assumes "resolveStatus (ip_status d) \<noteq> ''verified''" and "insertAccepted now s d"
  shows "map a_activityType (newActivities s (snd (createPayment tz now s d))) = [''payment_created'']"
  using assms
  by (auto simp: createPayment_def insertAccepted_def paymentRefsHold_def Let_def
      newActivities_types getMember_def getMembershipPlan_def split: option.splits)

lemma storedResult_simps [simp]:
  "storedResult (Returned x) = Returned (map_option stored x)"
  "storedResult (Threw e) = Threw e"
  by (simp_all add: storedResult_def)

text \<open>Verification in the two implementations, from the same tables.\<close>

lemma verify_agree:
  assumes fk: "foreignKeysHold s" and d: "distinct (map p_id (payments s))"
    and a: "getUser s adminId = Some a"
  shows "payments (snd (mem_verifyPayment tz now (memStore s) i adminId)) =
           map stored (payments (snd (verifyPayment tz now s i adminId)))"
    and "fst (verifyPayment tz now s i adminId) \<noteq> Threw StoreFailure \<Longrightarrow>
           fst (mem_verifyPayment tz now (memStore s) i adminId) =
             storedResult (fst (verifyPayment tz now s i adminId))"
    and "fst (verifyPayment tz now s i adminId) \<noteq> Threw StoreFailure \<Longrightarrow>
           map m_status (members (snd (mem_verifyPayment tz now (memStore s) i adminId))) =
             map m_status (members (snd (verifyPayment tz now s i adminId)))"
proof -
  let ?db = "verifyPayment tz now s i adminId"
  let ?mem = "mem_verifyPayment tz now (memStore s) i adminId"
  have all: "payments (snd ?mem) = map stored (payments (snd ?db)) \<and>
      (fst ?db \<noteq> Threw StoreFailure \<longrightarrow>
         fst ?mem = storedResult (fst ?db) \<and>
         map m_status (members (snd ?mem)) = map m_status (members (snd ?db)))"
  proof (cases "getPayment s i")
    case None
    then have "mem_getPayment (memStore s) i = None" by (simp add: mem_getPayment_memStore)
    with None show ?thesis by (simp add: verifyPayment_def mem_verifyPayment_def)
  next
    case (Some p)
    from stored_payment_refs [OF fk Some] obtain m plan
      where m: "getMember s (p_memberId p) = Some m"
        and pl: "getMembershipPlan s (p_planId p) = Some plan" by auto
    have q: "mem_getPayment (memStore s) i = Some (stored p)"
      using Some by (simp add: mem_getPayment_memStore)
    have m': "getMember (memStore s) (ip_memberId (stored p)) = Some m" using m by simp
    have a': "getUser (memStore s) adminId = Some a" using a by simp
    have pl': "getMembershipPlan (memStore s) (ip_planId (stored p)) = Some plan" using pl by simp
    have marked: "map (\<lambda>r. if mq_id r = i then mem_markVerified adminId now (stored p) else r)
        (map stored (payments s)) =
        map stored (map (\<lambda>r. if p_id r = i then markVerified adminId now r else r) (payments s))"
    proof -
      have "stored (markVerified adminId now r) = mem_markVerified adminId now (stored p)"
        if "r \<in> set (payments s)" "p_id r = i" for r
        using distinct_find_unique [OF d Some [unfolded getPayment_def] that]
        by (simp add: stored_markVerified)
      then show ?thesis by simp
    qed
    show ?thesis
    proof (cases "verifyExpiry tz plan (m_expiryDate m) now")
      case None
      note db = verifyPayment_range_error [OF Some m a pl None]
      note mem = mem_verifyPayment_range_error [OF q m' a' pl' None]
      have pay: "payments (snd ?mem) = map stored (payments (snd ?db))"
        unfolding mem(2) db(2) memStore_lookups by (rule marked)
      show ?thesis by (simp add: db(1) db(3) mem(1) mem(3) pay)
    next
      case t: (Some t)
      note mem = mem_verifyPayment_found [OF q m' a' pl' t]
      show ?thesis
      proof (cases "isoAccepted t")
        case False
        note db = verifyPayment_store_failure [OF Some m a pl t False]
        have pay: "payments (snd ?mem) = map stored (payments (snd ?db))"
          unfolding mem(2) db(2) memStore_lookups by (rule marked)
        show ?thesis by (simp add: db(1) pay)
      next
        case True
        note db = verifyPayment_found [OF Some m a pl t True]
        have "map m_status (members (snd ?mem)) = map m_status (members (snd ?db))"
          by (simp add: db(2) mem(3) updateMemberRows_def setMemberData_def comp_def
              if_distrib [of m_status] cong: if_cong)
        moreover have "payments (snd ?mem) = map stored (payments (snd ?db))"
          unfolding mem(2) db(3) memStore_lookups by (rule marked)
        ultimately show ?thesis by (simp add: db(1) mem(1) stored_markVerified)
      qed
    qed
  qed
  from all show "payments (snd ?mem) = map stored (payments (snd ?db))" by simp
  from all show "fst ?mem = storedResult (fst ?db)" if "fst ?db \<noteq> Threw StoreFailure"
    using that by simp
  from all show "map m_status (members (snd ?mem)) = map m_status (members (snd ?db))"
    if "fst ?db \<noteq> Threw StoreFailure"
    using that by simp
qed

text \<open>Rejection in the two implementations, from the same tables.\<close>

lemma reject_agree:
  assumes fk: "foreignKeysHold s" and d: "distinct (map p_id (payments s))"
    and a: "getUser s adminId = Some a"
  shows "members (snd (mem_rejectPayment now (memStore s) i adminId notes)) = members s"
    and "members (snd (rejectPayment now s i adminId notes)) = members s"
    and "map a_activityType (activities (snd (mem_rejectPayment now (memStore s) i adminId notes))) =
           map a_activityType (activities (snd (rejectPayment now s i adminId notes)))"
    and "notes \<noteq> Some [] \<Longrightarrow>
           Returned (fst (mem_rejectPayment now (memStore s) i adminId notes)) =
             storedResult (fst (rejectPayment now s i adminId notes))"
    and "notes \<noteq> Some [] \<Longrightarrow>
           payments (snd (mem_rejectPayment now (memStore s) i adminId notes)) =
             map stored (payments (snd (rejectPayment now s i adminId notes)))"
proof -
  let ?db = "rejectPayment now s i adminId notes"
  let ?mem = "mem_rejectPayment now (memStore s) i adminId notes"
  have all: "members (snd ?mem) = members s \<and> members (snd ?db) = members s \<and>
      map a_activityType (activities (snd ?mem)) = map a_activityType (activities (snd ?db)) \<and>
      (notes \<noteq> Some [] \<longrightarrow>
         Returned (fst ?mem) = storedResult (fst ?db) \<and>
         payments (snd ?mem) = map stored (payments (snd ?db)))"
  proof (cases "getPayment s i")
    case None
    then have "mem_getPayment (memStore s) i = None" by (simp add: mem_getPayment_memStore)
    with None show ?thesis
      by (simp add: rejectPayment_def mem_rejectPayment_def Let_def getPayment_def find_None_map_id)
  next
    case (Some p)
    from stored_payment_refs [OF fk Some] have m: "getMember s (p_memberId p) \<noteq> None" by simp
    have q: "mem_getPayment (memStore s) i = Some (stored p)"
      using Some by (simp add: mem_getPayment_memStore)
    note db = rejectPayment_found [OF Some a, of now "notes"]
    note mem = mem_rejectPayment_found [OF q, of now adminId "notes"]
    have acts: "activities s' = activities s0 @ newActivities s0 s'"
      if "\<exists>xs. activities s' = activities s0 @ xs" for s' :: "'x storage" and s0 :: "'y storage"
      using that by (auto simp: newActivities_def)
    have types: "map a_activityType (activities (snd ?mem)) = map a_activityType (activities (snd ?db))"
    proof -
      have "map a_activityType (activities (snd ?mem)) =
          map a_activityType (activities s) @ [''payment_rejected'']"
        using q m a
        by (auto simp: mem_rejectPayment_def Let_def lookups_payments_upd split: option.splits)
      moreover have "map a_activityType (activities (snd ?db)) =
          map a_activityType (activities s) @ [''payment_rejected'']"
        using Some m a
        by (auto simp: rejectPayment_def Let_def lookups_payments_upd getPayment_rejected
            markRejected_def split: option.splits)
      ultimately show ?thesis by simp
    qed
    have marked: "map (\<lambda>r. if mq_id r = i then mem_markRejected adminId now notes (stored p) else r)
        (map stored (payments s)) =
        map stored (map (\<lambda>r. if p_id r = i then markRejected adminId now notes r else r) (payments s))"
      if n: "notes \<noteq> Some []"
    proof -
      have "stored (markRejected adminId now notes r) = mem_markRejected adminId now notes (stored p)"
        if "r \<in> set (payments s)" "p_id r = i" for r
        using distinct_find_unique [OF d Some [unfolded getPayment_def] that]
        by (simp add: stored_markRejected [OF n])
      then show ?thesis by simp
    qed
    have pay: "payments (snd ?mem) = map stored (payments (snd ?db))" if n: "notes \<noteq> Some []"
      unfolding mem(2) db(2) memStore_lookups by (rule marked [OF n])
    show ?thesis
      using types pay by (simp add: db(1) db(3) mem(1) mem(3) stored_markRejected)
  qed
  from all show "members (snd ?mem) = members s" "members (snd ?db) = members s"
    "map a_activityType (activities (snd ?mem)) = map a_activityType (activities (snd ?db))"
    by simp_all
  from all show "Returned (fst ?mem) = storedResult (fst ?db)" if "notes \<noteq> Some []"
    using that by simp
  from all show "payments (snd ?mem) = map stored (payments (snd ?db))" if "notes \<noteq> Some []"
    using that by simp
qed

text \<open>
  C9, as far as it holds. The two implementations are started from the same tables, tables
  the database can hold (every payment has its member, its plan and its verifier, and the
  payment ids are unique), and are called by an administrator who is a user.
  \<^verbatim>\<open>verifyPayment\<close> leaves the same payments table in both; unless the database refuses the
  expiry date, both give the same answer (the same payment, or the same error of a date
  out of range) and every member the same status. For a payment id that no payment has,
  \<^verbatim>\<open>verifyPayment\<close> and \<^verbatim>\<open>rejectPayment\<close> answer that nothing was found and change nothing,
  in both. \<^verbatim>\<open>rejectPayment\<close> leaves the members table as it was and appends audit entries
  of the same types in both, and when the notes are absent or not empty both return the
  same payment and leave the same payments table. \<^verbatim>\<open>createPayment\<close> with the status
  \<^verbatim>\<open>pending\<close>, when the database accepts the insert, stores a pending payment, leaves the
  members table as it was and appends one \<^verbatim>\<open>payment_created\<close> entry in both.
\<close>

theorem storages_agree_in_part:
  assumes fk: "foreignKeysHold s" and d: "distinct (map p_id (payments s))"
    and a: "getUser s adminId = Some a"
  shows "payments (snd (mem_verifyPayment tz now (memStore s) i adminId)) =
           map stored (payments (snd (verifyPayment tz now s i adminId))) \<and>
         (fst (verifyPayment tz now s i adminId) \<noteq> Threw StoreFailure \<longrightarrow>
            fst (mem_verifyPayment tz now (memStore s) i adminId) =
              storedResult (fst (verifyPayment tz now s i adminId)) \<and>
            map m_status (members (snd (mem_verifyPayment tz now (memStore s) i adminId))) =
              map m_status (members (snd (verifyPayment tz now s i adminId)))) \<and>
         (getPayment s i = None \<longrightarrow>
            verifyPayment tz now s i adminId = (Returned None, s) \<and>
            mem_verifyPayment tz now (memStore s) i adminId = (Returned None, memStore s) \<and>
            rejectPayment now s i adminId notes = (Returned None, s) \<and>
            mem_rejectPayment now (memStore s) i adminId notes = (None, memStore s)) \<and>
         members (snd (mem_rejectPayment now (memStore s) i adminId notes)) = members s \<and>
         members (snd (rejectPayment now s i adminId notes)) = members s \<and>
         map a_activityType (activities (snd (mem_rejectPayment now (memStore s) i adminId notes))) =
           map a_activityType (activities (snd (rejectPayment now s i adminId notes))) \<and>
         (notes \<noteq> Some [] \<longrightarrow>
            Returned (fst (mem_rejectPayment now (memStore s) i adminId notes)) =
              storedResult (fst (rejectPayment now s i adminId notes)) \<and>
            payments (snd (mem_rejectPayment now (memStore s) i adminId notes)) =
              map stored (payments (snd (rejectPayment now s i adminId notes)))) \<and>
         (ip_status ins = Some ''pending'' \<and> insertAccepted now s ins \<longrightarrow>
            p_status (newPaymentRow now (paymentIdCounter s) ins) = ''pending'' \<and>
            fst (createPayment tz now s ins) = Returned (newPaymentRow now (paymentIdCounter s) ins) \<and>
            ip_status (fst (mem_createPayment now (memStore s) ins)) = Some ''pending'' \<and>
            members (snd (createPayment tz now s ins)) = members s \<and>
            members (snd (mem_createPayment now (memStore s) ins)) = members s \<and>
            map a_activityType (newActivities s (snd (createPayment tz now s ins))) =
              [''payment_created''] \<and>
            map a_activityType
              (newActivities (memStore s) (snd (mem_createPayment now (memStore s) ins))) =
              [''payment_created''])"
proof -
  note v = verify_agree [OF fk d a]
  note r = reject_agree [OF fk d a]
  have nf: "verifyPayment tz now s i adminId = (Returned None, s) \<and>
      mem_verifyPayment tz now (memStore s) i adminId = (Returned None, memStore s) \<and>
      rejectPayment now s i adminId notes = (Returned None, s) \<and>
      mem_rejectPayment now (memStore s) i adminId notes = (None, memStore s)"
    if none: "getPayment s i = None"
  proof -
    from none have "mem_getPayment (memStore s) i = None" by (simp add: mem_getPayment_memStore)
    with none show ?thesis
      by (simp add: verifyPayment_def mem_verifyPayment_def rejectPayment_def mem_rejectPayment_def
          Let_def getPayment_def find_None_map_id)
  qed
  have cp: "p_status (newPaymentRow now (paymentIdCounter s) ins) = ''pending'' \<and>
      fst (createPayment tz now s ins) = Returned (newPaymentRow now (paymentIdCounter s) ins) \<and>
      ip_status (fst (mem_createPayment now (memStore s) ins)) = Some ''pending'' \<and>
      members (snd (createPayment tz now s ins)) = members s \<and>
      members (snd (mem_createPayment now (memStore s) ins)) = members s \<and>
      map a_activityType (newActivities s (snd (createPayment tz now s ins))) =
        [''payment_created''] \<and>
      map a_activityType
        (newActivities (memStore s) (snd (mem_createPayment now (memStore s) ins))) =
        [''payment_created'']"
    if st: "ip_status ins = Some ''pending''" and acc: "insertAccepted now s ins"
  proof -
    from st have nv: "resolveStatus (ip_status ins) \<noteq> ''verified''"
      and rs: "resolveStatus (ip_status ins) = ''pending''"
      by (simp_all add: resolveStatus_def)
    note refs = insertAccepted_refs [OF acc]
    note db = createPayment_not_verified [OF nv]
    show ?thesis
      using refs
      by (simp add: st db(1) db(3) [OF acc] createPayment_not_verified_types [OF nv acc]
          mem_createPayment_effect resolveStatus_def)
  qed
  have 1: "payments (snd (mem_verifyPayment tz now (memStore s) i adminId)) =
      map stored (payments (snd (verifyPayment tz now s i adminId)))"
    by (rule v(1))
  have 2: "fst (verifyPayment tz now s i adminId) \<noteq> Threw StoreFailure \<longrightarrow>
      fst (mem_verifyPayment tz now (memStore s) i adminId) =
        storedResult (fst (verifyPayment tz now s i adminId)) \<and>
      map m_status (members (snd (mem_verifyPayment tz now (memStore s) i adminId))) =
        map m_status (members (snd (verifyPayment tz now s i adminId)))"
    by (intro impI conjI) (erule v(2), erule v(3))
  have 3: "members (snd (mem_rejectPayment now (memStore s) i adminId notes)) = members s"
    by (rule r(1))
  have 4: "members (snd (rejectPayment now s i adminId notes)) = members s"
    by (rule r(2))
  have 5: "map a_activityType (activities (snd (mem_rejectPayment now (memStore s) i adminId notes))) =
      map a_activityType (activities (snd (rejectPayment now s i adminId notes)))"
    by (rule r(3))
  have 6: "notes \<noteq> Some [] \<longrightarrow>
      Returned (fst (mem_rejectPayment now (memStore s) i adminId notes)) =
        storedResult (fst (rejectPayment now s i adminId notes)) \<and>
      payments (snd (mem_rejectPayment now (memStore s) i adminId notes)) =
        map stored (payments (snd (rejectPayment now s i adminId notes)))"
    by (intro impI conjI) (erule r(4), erule r(5))
  from 1 2 nf 3 4 5 6 cp show ?thesis by blast
qed

theorem storages_agree_in_part_witness:
  "fst (mem_verifyPayment zoneUTC demoNow (memStore demoStore) 2 1) =
     storedResult (fst (verifyPayment zoneUTC demoNow demoStore 2 1)) \<and>
   payments (snd (mem_verifyPayment zoneUTC demoNow (memStore demoStore) 2 1)) =
     map stored (payments (snd (verifyPayment zoneUTC demoNow demoStore 2 1))) \<and>
   map m_status (members (snd (mem_verifyPayment zoneUTC demoNow (memStore demoStore) 2 1))) =
     map m_status (members (snd (verifyPayment zoneUTC demoNow demoStore 2 1))) \<and>
   mem_verifyPayment zoneUTC demoNow (memStore demoStore) 7 1 = (Returned None, memStore demoStore) \<and>
   verifyPayment zoneUTC demoNow demoStore 7 1 = (Returned None, demoStore) \<and>
   Returned (fst (mem_rejectPayment demoNow (memStore demoStore) 2 1 (Some ''ilegible''))) =
     storedResult (fst (rejectPayment demoNow demoStore 2 1 (Some ''ilegible''))) \<and>
   payments (snd (mem_rejectPayment demoNow (memStore demoStore) 2 1 (Some ''ilegible''))) =
     map stored (payments (snd (rejectPayment demoNow demoStore 2 1 (Some ''ilegible'')))) \<and>
   members (snd (createPayment zoneUTC demoNow demoStore (demoInsert 1 1 (Some ''pending'')))) =
     members demoStore \<and>
   members (snd (mem_createPayment demoNow (memStore demoStore) (demoInsert 1 1 (Some ''pending'')))) =
     members demoStore"
proof -
  have fk: "foreignKeysHold demoStore" by code_simp
  have d: "distinct (map p_id (payments demoStore))" by code_simp
  have a: "getUser demoStore 1 = Some demoAdmin" by code_simp
  have n: "Some ''ilegible'' \<noteq> Some []" by simp
  have none: "getPayment demoStore 7 = None" by code_simp
  have ins: "ip_status (demoInsert 1 1 (Some ''pending'')) = Some ''pending'' \<and>
      insertAccepted demoNow demoStore (demoInsert 1 1 (Some ''pending''))"
    by code_simp
  have h: "getPayment demoStore 2 = Some paymentTwo"
      "getMember demoStore (p_memberId paymentTwo) = Some memberAna"
      "getUser demoStore 1 = Some demoAdmin"
      "getMembershipPlan demoStore (p_planId paymentTwo) = Some planPase"
      "verifyExpiry zoneUTC planPase (m_expiryDate memberAna) demoNow = Some 1707904800000"
      "isoAccepted 1707904800000"
    by code_simp+
  have ret: "fst (verifyPayment zoneUTC demoNow demoStore 2 1) \<noteq> Threw StoreFailure"
    by (simp add: verifyPayment_found(1) [OF h])
  note two = storages_agree_in_part [OF fk d a, of zoneUTC demoNow 2 "Some ''ilegible''"
      "demoInsert 1 1 (Some ''pending'')"]
  note seven = storages_agree_in_part [OF fk d a, of zoneUTC demoNow 7 "Some ''ilegible''"
      "demoInsert 1 1 (Some ''pending'')"]
  note v = two [THEN conjunct2, THEN conjunct1, THEN mp, OF ret]
  note nf = seven [THEN conjunct2, THEN conjunct2, THEN conjunct1, THEN mp, OF none]
  note rj = two [THEN conjunct2, THEN conjunct2, THEN conjunct2, THEN conjunct2, THEN conjunct2,
      THEN conjunct2, THEN conjunct1, THEN mp, OF n]
  note cp = two [THEN conjunct2, THEN conjunct2, THEN conjunct2, THEN conjunct2, THEN conjunct2,
      THEN conjunct2, THEN conjunct2, THEN mp, OF ins]
  from v [THEN conjunct1] two [THEN conjunct1] v [THEN conjunct2]
    nf [THEN conjunct2, THEN conjunct1] nf [THEN conjunct1]
    rj [THEN conjunct1] rj [THEN conjunct2]
    cp [THEN conjunct2, THEN conjunct2, THEN conjunct2, THEN conjunct1]
    cp [THEN conjunct2, THEN conjunct2, THEN conjunct2, THEN conjunct2, THEN conjunct1]
  show ?thesis by (intro conjI)
qed

text \<open>
  C9 as the specification words it does not hold: the implementations are not
  interchangeable. Verifying the same payment on the same tables, \<^verbatim>\<open>DatabaseStorage\<close> sets
  the member's plan id, keeps the calendar day of the expiry and appends three audit
  entries, while \<^verbatim>\<open>MemStorage\<close> leaves the plan id alone, keeps the time of day and appends
  two. Listing the members at ten in the morning in UTC, \<^verbatim>\<open>MemStorage\<close> expires the member
  whose membership ends today and \<^verbatim>\<open>DatabaseStorage\<close> does not. Creating a payment without
  a status, \<^verbatim>\<open>DatabaseStorage\<close> stores it as verified and sets the member active, while
  \<^verbatim>\<open>MemStorage\<close> stores it without a status and leaves the member pending.
\<close>

theorem storages_differ_counterexample:
  "map_option m_planId (getMember (snd (verifyPayment zoneUTC demoNow demoStore 2 1)) 1) =
     Some (Some 2) \<and>
   map_option m_planId
     (getMember (snd (mem_verifyPayment zoneUTC demoNow (memStore demoStore) 2 1)) 1) = Some None \<and>
   map_option m_expiryDate (getMember (snd (verifyPayment zoneUTC demoNow demoStore 2 1)) 1) =
     Some (Some 1707868800000) \<and>
   map_option m_expiryDate
     (getMember (snd (mem_verifyPayment zoneUTC demoNow (memStore demoStore) 2 1)) 1) =
     Some (Some 1707904800000) \<and>
   map a_activityType (activities (snd (verifyPayment zoneUTC demoNow demoStore 2 1))) =
     [''payment_verified'', ''member_updated'', ''membership_activated''] \<and>
   map a_activityType (activities (snd (mem_verifyPayment zoneUTC demoNow (memStore demoStore) 2 1))) =
     [''payment_verified'', ''member_updated''] \<and>
   map m_status (fst (getMembers zoneUTC demoNow demoStore)) =
     [Some ''pending'', Some ''expired'', Some ''active''] \<and>
   map m_status (fst (mem_getMembers demoNow (memStore demoStore))) =
     [Some ''pending'', Some ''expired'', Some ''expired''] \<and>
   fst (createPayment zoneUTC demoNow demoStore (demoInsert 1 1 None)) =
     Returned (newPaymentRow demoNow 3 (demoInsert 1 1 None)) \<and>
   p_status (newPaymentRow demoNow 3 (demoInsert 1 1 None)) = ''verified'' \<and>
   ip_status (fst (mem_createPayment demoNow (memStore demoStore) (demoInsert 1 1 None))) = None \<and>
   map m_status (members (snd (createPayment zoneUTC demoNow demoStore (demoInsert 1 1 None)))) =
     [Some ''active'', Some ''active'', Some ''active''] \<and>
   map m_status
     (members (snd (mem_createPayment demoNow (memStore demoStore) (demoInsert 1 1 None)))) =
     [Some ''pending'', Some ''active'', Some ''active'']"
proof -
  have 1: "map_option m_planId (getMember (snd (verifyPayment zoneUTC demoNow demoStore 2 1)) 1) =
      Some (Some 2) \<and>
    map_option m_expiryDate (getMember (snd (verifyPayment zoneUTC demoNow demoStore 2 1)) 1) =
      Some (Some 1707868800000) \<and>
    map a_activityType (activities (snd (verifyPayment zoneUTC demoNow demoStore 2 1))) =
      [''payment_verified'', ''member_updated'', ''membership_activated'']"
    by code_simp
  have 2: "map_option m_planId
      (getMember (snd (mem_verifyPayment zoneUTC demoNow (memStore demoStore) 2 1)) 1) = Some None \<and>
    map_option m_expiryDate
      (getMember (snd (mem_verifyPayment zoneUTC demoNow (memStore demoStore) 2 1)) 1) =
      Some (Some 1707904800000) \<and>
    map a_activityType (activities (snd (mem_verifyPayment zoneUTC demoNow (memStore demoStore) 2 1))) =
      [''payment_verified'', ''member_updated'']"
    by code_simp
  have 3: "map m_status (fst (getMembers zoneUTC demoNow demoStore)) =
      [Some ''pending'', Some ''expired'', Some ''active''] \<and>
    map m_status (fst (mem_getMembers demoNow (memStore demoStore))) =
      [Some ''pending'', Some ''expired'', Some ''expired'']"
    by code_simp
  have acc: "insertAccepted demoNow demoStore (demoInsert 1 1 None)" by code_simp
  have st: "resolveStatus (ip_status (demoInsert 1 1 None)) = ''verified''" by code_simp
  have m: "getMember demoStore (ip_memberId (demoInsert 1 1 None)) = Some memberAna" by code_simp
  have pl: "getMembershipPlan demoStore (ip_planId (demoInsert 1 1 None)) = Some planMensual"
    by code_simp
  have t: "createExpiry zoneUTC planMensual
      (case ip_paymentDate (demoInsert 1 1 None) of None \<Rightarrow> demoNow | Some t \<Rightarrow> t) =
      Some 1708077600000"
    by code_simp
  have ok: "isoAccepted 1708077600000" by code_simp
  have ids: "paymentIdCounter demoStore = 3" by code_simp
  note db = createPayment_verified [OF acc st m pl t ok, unfolded ids]
  have 4: "p_status (newPaymentRow demoNow 3 (demoInsert 1 1 None)) = ''verified''"
    using st by simp
  have 5: "ip_status (fst (mem_createPayment demoNow (memStore demoStore) (demoInsert 1 1 None))) = None"
    unfolding mem_createPayment_effect by code_simp
  have 6: "map m_status (members (snd (createPayment zoneUTC demoNow demoStore (demoInsert 1 1 None)))) =
      [Some ''active'', Some ''active'', Some ''active'']"
    unfolding db(2) by code_simp
  have 7: "map m_status
      (members (snd (mem_createPayment demoNow (memStore demoStore) (demoInsert 1 1 None)))) =
      [Some ''pending'', Some ''active'', Some ''active'']"
    unfolding mem_createPayment_effect by code_simp
  from 1 2 3 db(1) 4 5 6 7 show ?thesis by blast
qed

end
